theory Spec2Isabelle
  imports
    Complex_Main
    "HOL-Library.Word"
    "HOL-Library.Char_ord"
    "HOL-Library.List_Lexorder"
begin

section \<open>Errors\<close>

text \<open>
  The Python exceptions that the three modules can raise, as values. A method that can
  raise returns \<open>error + 'a\<close>, with \<open>Inl\<close> carrying the exception.
\<close>

datatype error =
    FileNotFoundError string
  | AttributeError
  | KeyError string
  | TypeError
  | ValueError
  | EmptyDataError
  | OutOfBoundsTimedelta
  | OverflowError
  | ParserError

section \<open>VisualizeModel.py: DataViewer\<close>

text \<open>
  \<open>DataViewer.draw\<close> inspects the run-time class of each element of \<open>plot_objects\<close>.
  An element is a \<open>go.Scatter3d\<close> trace, a Python list, or any other object. The type
  parameter \<open>'a\<close> is the trace; \<open>Other\<close> carries an identification of the foreign object.
\<close>

datatype 'a pyobj =
    Scatter3d 'a
  | Other string
  | PyList "'a pyobj list"

text \<open>
  The figure is the list of traces added so far (\<open>fig.add_trace\<close> appends); standard
  output is the list of printed lines. The f-string \<open>f"Invalid object: {c}"\<close> formats the
  object with Python's \<open>str\<close>, which is the parameter \<open>pystr\<close>.
\<close>

type_synonym 'a scene = "'a list \<times> string list"

definition add_trace :: "'a \<Rightarrow> 'a scene \<Rightarrow> 'a scene" where
  "add_trace c st = (fst st @ [c], snd st)"

definition print_line :: "string \<Rightarrow> 'a scene \<Rightarrow> 'a scene" where
  "print_line s st = (fst st, snd st @ [s])"

text \<open>The body shared by both branches: add a trace, or print the error message.\<close>

definition visit :: "('a pyobj \<Rightarrow> string) \<Rightarrow> 'a pyobj \<Rightarrow> 'a scene \<Rightarrow> 'a scene" where
  "visit pystr c st =
     (case c of
        Scatter3d t \<Rightarrow> add_trace t st
      | _ \<Rightarrow> print_line (''Invalid object: '' @ pystr c) st)"

text \<open>The outer loop body: a list is walked one level deep, anything else is visited.\<close>

definition draw_step :: "('a pyobj \<Rightarrow> string) \<Rightarrow> 'a pyobj \<Rightarrow> 'a scene \<Rightarrow> 'a scene" where
  "draw_step pystr b st =
     (case b of
        PyList cs \<Rightarrow> fold (visit pystr) cs st
      | _ \<Rightarrow> visit pystr b st)"

text \<open>
  \<open>draw\<close> starts from an empty figure and returns the figure it hands to \<open>fig.show()\<close>
  together with what it printed.
\<close>

definition draw :: "('a pyobj \<Rightarrow> string) \<Rightarrow> 'a pyobj list \<Rightarrow> 'a scene" where
  "draw pystr plot_objects = fold (draw_step pystr) plot_objects ([], [])"

subsection \<open>What the claim speaks of: leaves, valid and invalid\<close>

text \<open>The leaves of an element: the members of a list, or the element itself.\<close>

fun leaves :: "'a pyobj \<Rightarrow> 'a pyobj list" where
  "leaves (PyList cs) = cs"
| "leaves b = [b]"

fun drawables :: "'a pyobj list \<Rightarrow> 'a list" where
  "drawables [] = []"
| "drawables (Scatter3d t # cs) = t # drawables cs"
| "drawables (_ # cs) = drawables cs"

fun is_drawable :: "'a pyobj \<Rightarrow> bool" where
  "is_drawable (Scatter3d _) = True"
| "is_drawable _ = False"

definition invalid_leaves :: "'a pyobj list \<Rightarrow> 'a pyobj list" where
  "invalid_leaves cs = filter (\<lambda>c. \<not> is_drawable c) cs"

definition diagnostic :: "('a pyobj \<Rightarrow> string) \<Rightarrow> 'a pyobj \<Rightarrow> string" where
  "diagnostic pystr c = ''Invalid object: '' @ pystr c"

subsection \<open>Scene composition\<close>

lemma visit_eq:
  "visit pystr c st =
     (fst st @ drawables [c], snd st @ map (diagnostic pystr) (invalid_leaves [c]))"
  by (cases c)
    (simp_all add: visit_def add_trace_def print_line_def invalid_leaves_def diagnostic_def)

lemma fold_visit:
  "fold (visit pystr) cs st =
     (fst st @ drawables cs, snd st @ map (diagnostic pystr) (invalid_leaves cs))"
proof (induction cs arbitrary: st)
  case Nil
  then show ?case by (simp add: invalid_leaves_def)
next
  case (Cons c cs)
  have "fold (visit pystr) (c # cs) st = fold (visit pystr) cs (visit pystr c st)"
    by simp
  also have "\<dots> = (fst (visit pystr c st) @ drawables cs,
      snd (visit pystr c st) @ map (diagnostic pystr) (invalid_leaves cs))"
    by (rule Cons.IH)
  also have "\<dots> = (fst st @ drawables (c # cs),
      snd st @ map (diagnostic pystr) (invalid_leaves (c # cs)))"
    by (cases c) (simp_all add: visit_eq invalid_leaves_def)
  finally show ?case .
qed

lemma draw_step_leaves:
  "draw_step pystr b st = fold (visit pystr) (leaves b) st"
  by (cases b) (simp_all add: draw_step_def)

lemma fold_draw_step:
  "fold (draw_step pystr) bs st = fold (visit pystr) (concat (map leaves bs)) st"
  by (induction bs arbitrary: st) (simp_all add: draw_step_leaves)

lemma draw_eq:
  "draw pystr bs =
     (drawables (concat (map leaves bs)),
      map (diagnostic pystr) (invalid_leaves (concat (map leaves bs))))"
  by (simp add: draw_def fold_draw_step fold_visit)

text \<open>
  C5. Scene composition adds exactly the valid drawables among the leaves to the scene,
  in encounter order; every other leaf produces one diagnostic, the text
  \<open>Invalid object: \<close> followed by the printed form of the offending value, and is
  skipped, the composition going on with the next leaf. In particular one valid drawable
  together with one invalid entry, in either order or inside one nested list, gives a
  scene of exactly that drawable and exactly one diagnostic.
\<close>

theorem draw_composition:
  "fst (draw pystr bs) = drawables (concat (map leaves bs))
   \<and> snd (draw pystr bs)
       = map (\<lambda>c. ''Invalid object: '' @ pystr c) (invalid_leaves (concat (map leaves bs)))
   \<and> draw pystr [Scatter3d t, Other v] = ([t], [''Invalid object: '' @ pystr (Other v)])
   \<and> draw pystr [Other v, Scatter3d t] = ([t], [''Invalid object: '' @ pystr (Other v)])
   \<and> draw pystr [PyList [Scatter3d t, Other v]]
       = ([t], [''Invalid object: '' @ pystr (Other v)])"
  by (simp add: draw_eq invalid_leaves_def diagnostic_def)

section \<open>WellView.py: WellPlot\<close>

subsection \<open>The survey files and \<open>pd.read_csv\<close>\<close>

text \<open>
  A file is its lines, each line the list of its comma-separated fields; the file system
  maps a path to the file, if there is one. A cell of a loaded table is given by the text
  of the field it was read from, or \<open>None\<close> where the line has no such field. What
  pandas makes of the text, a number of a numeral and NaN of an empty field, is not
  modelled: no claim depends on it.
\<close>

type_synonym csv_file = "string list list"
type_synonym filesystem = "string \<Rightarrow> csv_file option"
type_synonym cell = "string option"

text \<open>
  All four calls pass \<open>usecols=['Azimuth','TVD','NS','EW']\<close>, so a loaded table has
  exactly these columns: a row is a station.
\<close>

record station =
  Azimuth :: cell
  TVD :: cell
  NS :: cell
  EW :: cell

text \<open>
  The parser of \<open>pd.read_csv\<close> is pandas' and is taken as it is, a parameter of the
  model: \<open>read_csv skiprows skipfooter names content\<close> stands for
  \<open>pd.read_csv(f, skiprows=skiprows, skipfooter=skipfooter,
  usecols=['Azimuth','TVD','NS','EW'], names=names, encoding='ISO-8859-1')\<close> on a file
  \<open>f\<close> with the lines \<open>content\<close>; \<open>names = None\<close> is the call without \<open>names\<close>, and a
  \<open>skipfooter\<close> of 0 the call without \<open>skipfooter\<close>. It returns the table or the
  exception raised.
\<close>

type_synonym csv_reader =
  "nat \<Rightarrow> nat \<Rightarrow> string list option \<Rightarrow> csv_file \<Rightarrow> error + station list"

subsection \<open>The instance\<close>

text \<open>
  The attributes \<open>well1\<close> to \<open>well4\<close> hold what the constructor was given, a file path,
  until \<open>load_csv\<close> assigns the parsed table to the same attribute.
\<close>

datatype well_attr = Path string | Frame "station list"

record WellPlot =
  well1 :: well_attr
  well2 :: well_attr
  well3 :: well_attr
  well4 :: well_attr

definition WellPlot_init :: "string \<Rightarrow> string \<Rightarrow> string \<Rightarrow> string \<Rightarrow> WellPlot" where
  "WellPlot_init w1 w2 w3 w4 =
     \<lparr>well1 = Path w1, well2 = Path w2, well3 = Path w3, well4 = Path w4\<rparr>"

text \<open>
  \<open>pd.read_csv\<close> applied to the value of an attribute. A table is neither a path nor a
  buffer: pandas raises \<open>TypeError\<close> on it before it opens anything. A path is opened
  (\<open>FileNotFoundError\<close> if there is no such file) and its lines are parsed.
\<close>

definition pd_read_csv ::
  "csv_reader \<Rightarrow> filesystem \<Rightarrow> well_attr \<Rightarrow> nat \<Rightarrow> nat \<Rightarrow> string list option
     \<Rightarrow> error + station list" where
  "pd_read_csv read_csv fs a skiprows skipfooter names =
     (case a of
        Frame _ \<Rightarrow> Inl TypeError
      | Path p \<Rightarrow>
          (case fs p of
             None \<Rightarrow> Inl (FileNotFoundError p)
           | Some content \<Rightarrow> read_csv skiprows skipfooter names content))"

text \<open>
  \<open>load_csv\<close> reads and assigns the four attributes one after the other; an exception
  leaves the assignments made before it in place.
\<close>

definition WellPlot_load_csv ::
  "csv_reader \<Rightarrow> filesystem \<Rightarrow> WellPlot \<Rightarrow> WellPlot \<times> (error + bool)" where
  "WellPlot_load_csv read_csv fs self =
     (case pd_read_csv read_csv fs (well1 self) 27 5 None of
        Inl e \<Rightarrow> (self, Inl e)
      | Inr t1 \<Rightarrow>
     let self = self\<lparr>well1 := Frame t1\<rparr> in
     (case pd_read_csv read_csv fs (well2 self) 22 0
             (Some [''Azimuth'', ''TVD'', ''NS'', ''EW'']) of
        Inl e \<Rightarrow> (self, Inl e)
      | Inr t2 \<Rightarrow>
     let self = self\<lparr>well2 := Frame t2\<rparr> in
     (case pd_read_csv read_csv fs (well3 self) 22 0
             (Some [''Azimuth'', ''TVD'', ''NS'', ''EW'']) of
        Inl e \<Rightarrow> (self, Inl e)
      | Inr t3 \<Rightarrow>
     let self = self\<lparr>well3 := Frame t3\<rparr> in
     (case pd_read_csv read_csv fs (well4 self) 22 0
             (Some [''Azimuth'', ''TVD'', ''NS'', ''EW'']) of
        Inl e \<Rightarrow> (self, Inl e)
      | Inr t4 \<Rightarrow>
     let self = self\<lparr>well4 := Frame t4\<rparr> in
     (self, Inr True)))))"

subsection \<open>Regular survey files\<close>

text \<open>
  What the claims say of the loaded tables is said of files of a regular shape, on which
  the documented reading of \<open>pd.read_csv\<close> leaves no choice. After the skipped leading
  lines every line has at least two fields, so that none is blank. Without \<open>names\<close> the
  first of these lines is the header; the lines after it, less the footer, have as many
  fields as the header, and the footer lines no more. With \<open>names\<close> every line, less the
  footer, has as many fields as there are names. Irregular files (blank lines, short or
  long rows) are left to pandas: the model says nothing of the table it makes of them.
\<close>

definition drop_last :: "nat \<Rightarrow> 'a list \<Rightarrow> 'a list" where
  "drop_last n xs = take (length xs - n) xs"

definition regular_file :: "nat \<Rightarrow> nat \<Rightarrow> string list option \<Rightarrow> csv_file \<Rightarrow> bool" where
  "regular_file skiprows skipfooter names content =
     (list_all (\<lambda>row. 2 \<le> length row) (drop skiprows content)
      \<and> (case names of
            None \<Rightarrow>
              (case drop skiprows content of
                 [] \<Rightarrow> True
               | header # body \<Rightarrow>
                   list_all (\<lambda>row. length row = length header) (drop_last skipfooter body)
                   \<and> list_all (\<lambda>row. length row \<le> length header) body)
          | Some ns \<Rightarrow>
              list_all (\<lambda>row. length row = length ns)
                (drop_last skipfooter (drop skiprows content))))"

definition usecols :: "string list" where
  "usecols = [''Azimuth'', ''TVD'', ''NS'', ''EW'']"

fun index_of :: "'a \<Rightarrow> 'a list \<Rightarrow> nat option" where
  "index_of c [] = None"
| "index_of c (h # hs) =
     (if h = c then Some 0 else map_option Suc (index_of c hs))"

text \<open>The cell of one line under the column called \<open>c\<close>, found by its place in the header.\<close>

definition cell_of :: "string list \<Rightarrow> string list \<Rightarrow> string \<Rightarrow> cell" where
  "cell_of header row c =
     (case index_of c header of
        None \<Rightarrow> None
      | Some i \<Rightarrow> if i < length row then Some (row ! i) else None)"

definition to_station :: "string list \<Rightarrow> string list \<Rightarrow> station" where
  "to_station header row =
     \<lparr>Azimuth = cell_of header row ''Azimuth'', TVD = cell_of header row ''TVD'',
      NS = cell_of header row ''NS'', EW = cell_of header row ''EW''\<rparr>"

text \<open>
  The table of a regular file. An integer \<open>skiprows\<close> drops that many leading lines.
  Without \<open>names\<close> the next line is the header (no line left: \<open>EmptyDataError\<close>), the
  four columns must all be in it (\<open>ValueError\<close> otherwise), and \<open>skipfooter\<close> drops that
  many of the last lines after the header. With \<open>names\<close> there is no header line: every
  remaining line is data, its fields named by position.
\<close>

definition regular_table ::
  "nat \<Rightarrow> nat \<Rightarrow> string list option \<Rightarrow> csv_file \<Rightarrow> error + station list" where
  "regular_table skiprows skipfooter names content =
     (case names of
        None \<Rightarrow>
          (case drop skiprows content of
             [] \<Rightarrow> Inl EmptyDataError
           | header # body \<Rightarrow>
               if list_all (\<lambda>c. c \<in> set header) usecols
               then Inr (map (to_station header) (drop_last skipfooter body))
               else Inl ValueError)
      | Some ns \<Rightarrow>
          if list_all (\<lambda>c. c \<in> set ns) usecols
          then Inr (map (to_station ns) (drop_last skipfooter (drop skiprows content)))
          else Inl ValueError)"

text \<open>
  The one thing assumed of pandas' parser: on a regular file, called as \<open>load_csv\<close>
  calls it, it returns the table of that file.
\<close>

definition reads_regular_files :: "csv_reader \<Rightarrow> bool" where
  "reads_regular_files read_csv =
     ((\<forall>content. regular_file 27 5 None content \<longrightarrow>
         read_csv 27 5 None content = regular_table 27 5 None content)
      \<and> (\<forall>content. regular_file 22 0 (Some [''Azimuth'', ''TVD'', ''NS'', ''EW'']) content \<longrightarrow>
         read_csv 22 0 (Some [''Azimuth'', ''TVD'', ''NS'', ''EW'']) content
           = regular_table 22 0 (Some [''Azimuth'', ''TVD'', ''NS'', ''EW'']) content))"

subsection \<open>The trajectory traces\<close>

text \<open>The decimal numeral of a natural number, as the f-string \<open>f'{i+1}H'\<close> prints it.\<close>

definition digit :: "nat \<Rightarrow> char" where
  "digit d = ''0123456789'' ! d"

fun str_nat :: "nat \<Rightarrow> string" where
  "str_nat n =
     (if n < 10 then [digit n]
      else str_nat (n div 10) @ [digit (n mod 10)])"

declare str_nat.simps [simp del]

record well_trace =
  trace_x :: "cell list"
  trace_y :: "cell list"
  trace_z :: "cell list"
  trace_mode :: string
  line_color :: string
  line_width :: nat
  trace_name :: string

definition colors :: "string list" where
  "colors = [''red'', ''blue'', ''green'', ''orange'']"

text \<open>The trace built in one round of the loop, for the table \<open>df\<close> at index \<open>i\<close>.\<close>

definition well_trace_of :: "nat \<Rightarrow> station list \<Rightarrow> well_trace" where
  "well_trace_of i df =
     \<lparr>trace_x = map EW df, trace_y = map NS df, trace_z = map TVD df,
      trace_mode = ''lines'',
      line_color = colors ! (i mod length colors),
      line_width = 3,
      trace_name = str_nat (i + 1) @ ''H''\<rparr>"

text \<open>
  The loop over \<open>enumerate(dataframes)\<close>. Indexing an attribute that still holds a path
  with a column name, \<open>df['EW']\<close> on a \<open>str\<close>, raises \<open>TypeError\<close>.
\<close>

fun well_loop :: "nat \<Rightarrow> well_attr list \<Rightarrow> well_trace list \<Rightarrow> error + well_trace list" where
  "well_loop i [] well_traces = Inr well_traces"
| "well_loop i (Path p # dfs) well_traces = Inl TypeError"
| "well_loop i (Frame df # dfs) well_traces =
     well_loop (Suc i) dfs (well_traces @ [well_trace_of i df])"

definition WellPlot_create_plot :: "WellPlot \<Rightarrow> error + well_trace list" where
  "WellPlot_create_plot self =
     well_loop 0 [well1 self, well2 self, well3 self, well4 self] []"

subsection \<open>The traces of loaded trajectories\<close>

text \<open>
  For tables only, the loop builds one trace per table, in the order of the list, the
  trace at index \<open>j\<close> coloured \<open>colors[j % 4]\<close> and called \<open>f'{j+1}H'\<close>.
\<close>

lemma well_loop_frames:
  "well_loop i (map Frame dfs) acc
     = Inr (acc @ map (\<lambda>(j, df). well_trace_of j df) (enumerate i dfs))"
  by (induction dfs arbitrary: i acc) simp_all

lemma str_nat_small:
  "str_nat (Suc 0) = ''1''" "str_nat (Suc (Suc 0)) = ''2''"
  "str_nat (Suc (Suc (Suc 0))) = ''3''" "str_nat (Suc (Suc (Suc (Suc 0)))) = ''4''"
  by (simp_all add: str_nat.simps digit_def)


text \<open>
  C6. For four loaded trajectories, \<open>create_plot\<close> returns exactly four line traces, in
  the order \<open>well1\<close> to \<open>well4\<close>. The positions of each are the columns \<open>EW\<close>, \<open>NS\<close> and
  \<open>TVD\<close> of its table, station by station in the order of the table; the colours are
  red, blue, green and orange, the palette indexed by the place of the trajectory in the
  list; the names are \<open>1H\<close>, \<open>2H\<close>, \<open>3H\<close> and \<open>4H\<close>.
\<close>

theorem create_plot_four_wells:
  assumes "well1 self = Frame d1" and "well2 self = Frame d2"
    and "well3 self = Frame d3" and "well4 self = Frame d4"
  shows "WellPlot_create_plot self = Inr
     [\<lparr>trace_x = map EW d1, trace_y = map NS d1, trace_z = map TVD d1,
       trace_mode = ''lines'', line_color = ''red'', line_width = 3, trace_name = ''1H''\<rparr>,
      \<lparr>trace_x = map EW d2, trace_y = map NS d2, trace_z = map TVD d2,
       trace_mode = ''lines'', line_color = ''blue'', line_width = 3, trace_name = ''2H''\<rparr>,
      \<lparr>trace_x = map EW d3, trace_y = map NS d3, trace_z = map TVD d3,
       trace_mode = ''lines'', line_color = ''green'', line_width = 3, trace_name = ''3H''\<rparr>,
      \<lparr>trace_x = map EW d4, trace_y = map NS d4, trace_z = map TVD d4,
       trace_mode = ''lines'', line_color = ''orange'', line_width = 3, trace_name = ''4H''\<rparr>]"
  using assms
  by (simp add: WellPlot_create_plot_def well_trace_of_def colors_def str_nat_small)

subsection \<open>Example surveys\<close>

text \<open>
  A first well file in the layout the code expects (27 lines, header, two stations, five
  footer lines) and a file in the layout of the other three (22 lines, one station).
\<close>

definition survey_A :: csv_file where
  "survey_A =
     replicate 27 [''preamble'']
     @ [[''MD'', ''Azimuth'', ''TVD'', ''NS'', ''EW''],
        [''0'', ''10.5'', ''100'', ''1'', ''2''],
        [''50'', ''11.5'', ''150'', ''3'', ''4'']]
     @ replicate 5 [''footer'', ''end'']"

definition survey_B :: csv_file where
  "survey_B = replicate 22 [''preamble''] @ [[''12.5'', ''200'', ''5'', ''6'']]"

definition survey_fs :: filesystem where
  "survey_fs p = (if p = ''well1.csv'' then Some survey_A
                  else if p \<in> {''well2.csv'', ''well3.csv'', ''well4.csv''} then Some survey_B
                  else None)"

definition stations_A :: "station list" where
  "stations_A =
     [\<lparr>Azimuth = Some ''10.5'', TVD = Some ''100'', NS = Some ''1'', EW = Some ''2''\<rparr>,
      \<lparr>Azimuth = Some ''11.5'', TVD = Some ''150'', NS = Some ''3'', EW = Some ''4''\<rparr>]"

definition stations_B :: "station list" where
  "stations_B =
     [\<lparr>Azimuth = Some ''12.5'', TVD = Some ''200'', NS = Some ''5'', EW = Some ''6''\<rparr>]"

text \<open>
  A first well file in the layout of one describing line, the header, two stations and
  five footer lines.
\<close>

definition survey_one_row :: csv_file where
  "survey_one_row =
     [[''Survey of well 1H'']]
     @ [[''MD'', ''Azimuth'', ''TVD'', ''NS'', ''EW''],
        [''0'', ''10.5'', ''100'', ''1'', ''2''],
        [''50'', ''11.5'', ''150'', ''3'', ''4'']]
     @ replicate 5 [''footer'', ''end'']"

definition survey_one_row_fs :: filesystem where
  "survey_one_row_fs p = Some survey_one_row"

subsection \<open>Loading the surveys\<close>

lemma pd_read_csv_Inr:
  "pd_read_csv rd fs a m n ns = Inr t \<Longrightarrow>
     \<exists>p c. a = Path p \<and> fs p = Some c \<and> rd m n ns c = Inr t"
  by (auto simp: pd_read_csv_def split: well_attr.splits option.splits)

lemma load_csv_Inr:
  assumes "WellPlot_load_csv rd fs self = (self', Inr r)"
  shows "\<exists>t1 t2 t3 t4.
      pd_read_csv rd fs (well1 self) 27 5 None = Inr t1
    \<and> pd_read_csv rd fs (well2 self) 22 0 (Some [''Azimuth'', ''TVD'', ''NS'', ''EW'']) = Inr t2
    \<and> pd_read_csv rd fs (well3 self) 22 0 (Some [''Azimuth'', ''TVD'', ''NS'', ''EW'']) = Inr t3
    \<and> pd_read_csv rd fs (well4 self) 22 0 (Some [''Azimuth'', ''TVD'', ''NS'', ''EW'']) = Inr t4
    \<and> self' = \<lparr>well1 = Frame t1, well2 = Frame t2, well3 = Frame t3, well4 = Frame t4\<rparr>
    \<and> r = True"
  using assms
  by (cases self) (auto simp: WellPlot_load_csv_def Let_def split: sum.splits)

lemma load_csv_paths:
  assumes "WellPlot_load_csv rd fs self = (self', Inr r)"
  shows "\<exists>p1 p2 p3 p4 c1 c2 c3 c4 t1 t2 t3 t4.
      self = \<lparr>well1 = Path p1, well2 = Path p2, well3 = Path p3, well4 = Path p4\<rparr>
    \<and> fs p1 = Some c1 \<and> fs p2 = Some c2 \<and> fs p3 = Some c3 \<and> fs p4 = Some c4
    \<and> rd 27 5 None c1 = Inr t1
    \<and> rd 22 0 (Some [''Azimuth'', ''TVD'', ''NS'', ''EW'']) c2 = Inr t2
    \<and> rd 22 0 (Some [''Azimuth'', ''TVD'', ''NS'', ''EW'']) c3 = Inr t3
    \<and> rd 22 0 (Some [''Azimuth'', ''TVD'', ''NS'', ''EW'']) c4 = Inr t4
    \<and> self' = \<lparr>well1 = Frame t1, well2 = Frame t2, well3 = Frame t3, well4 = Frame t4\<rparr>"
proof -
  from load_csv_Inr [OF assms] obtain t1 t2 t3 t4 where
    r1: "pd_read_csv rd fs (well1 self) 27 5 None = Inr t1"
    and r2: "pd_read_csv rd fs (well2 self) 22 0 (Some [''Azimuth'', ''TVD'', ''NS'', ''EW'']) = Inr t2"
    and r3: "pd_read_csv rd fs (well3 self) 22 0 (Some [''Azimuth'', ''TVD'', ''NS'', ''EW'']) = Inr t3"
    and r4: "pd_read_csv rd fs (well4 self) 22 0 (Some [''Azimuth'', ''TVD'', ''NS'', ''EW'']) = Inr t4"
    and s': "self' = \<lparr>well1 = Frame t1, well2 = Frame t2, well3 = Frame t3, well4 = Frame t4\<rparr>"
    by blast
  from pd_read_csv_Inr [OF r1] obtain p1 c1 where
    1: "well1 self = Path p1" "fs p1 = Some c1" "rd 27 5 None c1 = Inr t1" by blast
  from pd_read_csv_Inr [OF r2] obtain p2 c2 where
    2: "well2 self = Path p2" "fs p2 = Some c2"
      "rd 22 0 (Some [''Azimuth'', ''TVD'', ''NS'', ''EW'']) c2 = Inr t2" by blast
  from pd_read_csv_Inr [OF r3] obtain p3 c3 where
    3: "well3 self = Path p3" "fs p3 = Some c3"
      "rd 22 0 (Some [''Azimuth'', ''TVD'', ''NS'', ''EW'']) c3 = Inr t3" by blast
  from pd_read_csv_Inr [OF r4] obtain p4 c4 where
    4: "well4 self = Path p4" "fs p4 = Some c4"
      "rd 22 0 (Some [''Azimuth'', ''TVD'', ''NS'', ''EW'']) c4 = Inr t4" by blast
  from 1(1) 2(1) 3(1) 4(1)
  have "self = \<lparr>well1 = Path p1, well2 = Path p2, well3 = Path p3, well4 = Path p4\<rparr>"
    by (cases self) simp
  with 1 2 3 4 s' show ?thesis by blast
qed

text \<open>
  C10. After a successful \<open>load_csv\<close> the four attributes, which held paths before, hold
  the tables that \<open>pd.read_csv\<close> made of the files at these paths; the instance has no
  other attribute, so the paths are gone. A second \<open>load_csv\<close> on the instance reads no
  file, whatever the file system holds and whatever the parser would do: the first
  \<open>pd.read_csv\<close> is given a table, raises \<open>TypeError\<close>, and the instance is left as it
  was.
\<close>

theorem load_csv_replaces_paths:
  assumes "WellPlot_load_csv read_csv fs self = (self', Inr r)"
  shows "\<exists>p1 p2 p3 p4 c1 c2 c3 c4 t1 t2 t3 t4.
      self = \<lparr>well1 = Path p1, well2 = Path p2, well3 = Path p3, well4 = Path p4\<rparr>
    \<and> fs p1 = Some c1 \<and> fs p2 = Some c2 \<and> fs p3 = Some c3 \<and> fs p4 = Some c4
    \<and> read_csv 27 5 None c1 = Inr t1
    \<and> read_csv 22 0 (Some [''Azimuth'', ''TVD'', ''NS'', ''EW'']) c2 = Inr t2
    \<and> read_csv 22 0 (Some [''Azimuth'', ''TVD'', ''NS'', ''EW'']) c3 = Inr t3
    \<and> read_csv 22 0 (Some [''Azimuth'', ''TVD'', ''NS'', ''EW'']) c4 = Inr t4
    \<and> self' = \<lparr>well1 = Frame t1, well2 = Frame t2, well3 = Frame t3, well4 = Frame t4\<rparr>
    \<and> WellPlot_load_csv read_csv' fs' self' = (self', Inl TypeError)"
proof -
  from load_csv_paths [OF assms] obtain p1 p2 p3 p4 c1 c2 c3 c4 t1 t2 t3 t4 where
    h: "self = \<lparr>well1 = Path p1, well2 = Path p2, well3 = Path p3, well4 = Path p4\<rparr>"
      "fs p1 = Some c1" "fs p2 = Some c2" "fs p3 = Some c3" "fs p4 = Some c4"
      "read_csv 27 5 None c1 = Inr t1"
      "read_csv 22 0 (Some [''Azimuth'', ''TVD'', ''NS'', ''EW'']) c2 = Inr t2"
      "read_csv 22 0 (Some [''Azimuth'', ''TVD'', ''NS'', ''EW'']) c3 = Inr t3"
      "read_csv 22 0 (Some [''Azimuth'', ''TVD'', ''NS'', ''EW'']) c4 = Inr t4"
      "self' = \<lparr>well1 = Frame t1, well2 = Frame t2, well3 = Frame t3, well4 = Frame t4\<rparr>"
    by blast
  have "WellPlot_load_csv read_csv' fs' self' = (self', Inl TypeError)"
    by (simp add: h(10) WellPlot_load_csv_def pd_read_csv_def)
  with h show ?thesis by blast
qed

lemma regular_table_A:
  assumes "regular_table 27 5 None c = Inr t"
  shows "\<exists>header body. drop 27 c = header # body
    \<and> t = map (to_station header) (take (length body - 5) body)"
  using assms
  by (auto simp: regular_table_def drop_last_def split: list.splits if_splits)

lemma regular_table_B:
  assumes "regular_table 22 0 (Some [''Azimuth'', ''TVD'', ''NS'', ''EW'']) c = Inr t"
  shows "t = map (to_station [''Azimuth'', ''TVD'', ''NS'', ''EW'']) (drop 22 c)"
  using assms
  by (auto simp: regular_table_def drop_last_def usecols_def split: if_splits)

text \<open>
  C9, as amended. A successful \<open>load_csv\<close> has called \<open>pd.read_csv\<close> on the first well
  file with 27 leading lines and 5 footer lines to skip and no names, and on each of the
  other three with 22 leading lines to skip and the names Azimuth, TVD, NS, EW. Where
  the first file is regular, its table is that of the file less its first 27 lines: the
  next line is the header, the last 5 of the lines after it are dropped, and the columns
  Azimuth, TVD, NS and EW are selected by their names in the header. Where one of the
  other files is regular, its table is that of the file less its first 22 lines, the
  fields of every remaining line named Azimuth, TVD, NS, EW by position.
\<close>

theorem load_csv_variants:
  assumes "reads_regular_files read_csv"
    and "WellPlot_load_csv read_csv fs self = (self', Inr r)"
  shows "\<exists>p1 p2 p3 p4 c1 c2 c3 c4 t1 t2 t3 t4.
      well1 self = Path p1 \<and> fs p1 = Some c1
    \<and> well2 self = Path p2 \<and> fs p2 = Some c2
    \<and> well3 self = Path p3 \<and> fs p3 = Some c3
    \<and> well4 self = Path p4 \<and> fs p4 = Some c4
    \<and> read_csv 27 5 None c1 = Inr t1 \<and> well1 self' = Frame t1
    \<and> read_csv 22 0 (Some [''Azimuth'', ''TVD'', ''NS'', ''EW'']) c2 = Inr t2
    \<and> well2 self' = Frame t2
    \<and> read_csv 22 0 (Some [''Azimuth'', ''TVD'', ''NS'', ''EW'']) c3 = Inr t3
    \<and> well3 self' = Frame t3
    \<and> read_csv 22 0 (Some [''Azimuth'', ''TVD'', ''NS'', ''EW'']) c4 = Inr t4
    \<and> well4 self' = Frame t4
    \<and> (regular_file 27 5 None c1 \<longrightarrow>
          (\<exists>header body. drop 27 c1 = header # body
             \<and> t1 = map (to_station header) (take (length body - 5) body)))
    \<and> (regular_file 22 0 (Some [''Azimuth'', ''TVD'', ''NS'', ''EW'']) c2 \<longrightarrow>
          t2 = map (to_station [''Azimuth'', ''TVD'', ''NS'', ''EW'']) (drop 22 c2))
    \<and> (regular_file 22 0 (Some [''Azimuth'', ''TVD'', ''NS'', ''EW'']) c3 \<longrightarrow>
          t3 = map (to_station [''Azimuth'', ''TVD'', ''NS'', ''EW'']) (drop 22 c3))
    \<and> (regular_file 22 0 (Some [''Azimuth'', ''TVD'', ''NS'', ''EW'']) c4 \<longrightarrow>
          t4 = map (to_station [''Azimuth'', ''TVD'', ''NS'', ''EW'']) (drop 22 c4))"
proof -
  from load_csv_paths [OF assms(2)] obtain p1 p2 p3 p4 c1 c2 c3 c4 t1 t2 t3 t4 where
    s: "self = \<lparr>well1 = Path p1, well2 = Path p2, well3 = Path p3, well4 = Path p4\<rparr>"
    and f: "fs p1 = Some c1" "fs p2 = Some c2" "fs p3 = Some c3" "fs p4 = Some c4"
    and r: "read_csv 27 5 None c1 = Inr t1"
      "read_csv 22 0 (Some [''Azimuth'', ''TVD'', ''NS'', ''EW'']) c2 = Inr t2"
      "read_csv 22 0 (Some [''Azimuth'', ''TVD'', ''NS'', ''EW'']) c3 = Inr t3"
      "read_csv 22 0 (Some [''Azimuth'', ''TVD'', ''NS'', ''EW'']) c4 = Inr t4"
    and s': "self' = \<lparr>well1 = Frame t1, well2 = Frame t2, well3 = Frame t3, well4 = Frame t4\<rparr>"
    by blast
  have a: "\<exists>header body. drop 27 c1 = header # body
             \<and> t1 = map (to_station header) (take (length body - 5) body)"
    if "regular_file 27 5 None c1"
  proof -
    from assms(1) that r(1) have "regular_table 27 5 None c1 = Inr t1"
      by (simp add: reads_regular_files_def)
    then show ?thesis by (rule regular_table_A)
  qed
  have b: "t = map (to_station [''Azimuth'', ''TVD'', ''NS'', ''EW'']) (drop 22 c)"
    if "regular_file 22 0 (Some [''Azimuth'', ''TVD'', ''NS'', ''EW'']) c"
      and "read_csv 22 0 (Some [''Azimuth'', ''TVD'', ''NS'', ''EW'']) c = Inr t" for c t
  proof -
    from assms(1) that
    have "regular_table 22 0 (Some [''Azimuth'', ''TVD'', ''NS'', ''EW'']) c = Inr t"
      by (simp add: reads_regular_files_def)
    then show ?thesis by (rule regular_table_B)
  qed
  have w: "well1 self = Path p1" "well2 self = Path p2" "well3 self = Path p3"
    "well4 self = Path p4" "well1 self' = Frame t1" "well2 self' = Frame t2"
    "well3 self' = Frame t3" "well4 self' = Frame t4"
    by (simp_all add: s s')
  show ?thesis
    apply (rule exI [of _ p1], rule exI [of _ p2], rule exI [of _ p3], rule exI [of _ p4])
    apply (rule exI [of _ c1], rule exI [of _ c2], rule exI [of _ c3], rule exI [of _ c4])
    apply (rule exI [of _ t1], rule exI [of _ t2], rule exI [of _ t3], rule exI [of _ t4])
    using w f r a b [OF _ r(2)] b [OF _ r(3)] b [OF _ r(4)]
    apply blast
    done
qed

subsection \<open>The example surveys loaded\<close>

lemma regular_surveys:
  "regular_file 27 5 None survey_A"
  "regular_file 22 0 (Some [''Azimuth'', ''TVD'', ''NS'', ''EW'']) survey_B"
  "regular_file 27 5 None survey_one_row"
  "regular_file 1 5 None survey_one_row"
  by (simp_all add: regular_file_def survey_A_def survey_B_def survey_one_row_def
      drop_last_def list_all_iff)

lemma reads_regular_files_regular_table: "reads_regular_files regular_table"
  by (simp add: reads_regular_files_def)

lemma parse_survey_A: "regular_table 27 5 None survey_A = Inr stations_A"
  by (simp add: regular_table_def survey_A_def stations_A_def usecols_def drop_last_def
      to_station_def cell_of_def)

lemma parse_survey_B:
  "regular_table 22 0 (Some [''Azimuth'', ''TVD'', ''NS'', ''EW'']) survey_B = Inr stations_B"
  by (simp add: regular_table_def survey_B_def stations_B_def usecols_def drop_last_def
      to_station_def cell_of_def)

lemma load_survey:
  "WellPlot_load_csv regular_table survey_fs
      (WellPlot_init ''well1.csv'' ''well2.csv'' ''well3.csv'' ''well4.csv'')
     = (\<lparr>well1 = Frame stations_A, well2 = Frame stations_B, well3 = Frame stations_B,
         well4 = Frame stations_B\<rparr>, Inr True)"
  by (simp add: WellPlot_load_csv_def WellPlot_init_def pd_read_csv_def survey_fs_def
      parse_survey_A parse_survey_B)

theorem load_csv_replaces_paths_witness:
  "WellPlot_load_csv regular_table survey_fs
      (WellPlot_init ''well1.csv'' ''well2.csv'' ''well3.csv'' ''well4.csv'')
     = (\<lparr>well1 = Frame stations_A, well2 = Frame stations_B, well3 = Frame stations_B,
         well4 = Frame stations_B\<rparr>, Inr True)
   \<and> WellPlot_load_csv regular_table survey_fs
        \<lparr>well1 = Frame stations_A, well2 = Frame stations_B, well3 = Frame stations_B,
         well4 = Frame stations_B\<rparr>
     = (\<lparr>well1 = Frame stations_A, well2 = Frame stations_B, well3 = Frame stations_B,
         well4 = Frame stations_B\<rparr>, Inl TypeError)"
  using load_csv_replaces_paths [OF load_survey, of regular_table survey_fs] load_survey
  by auto

theorem load_csv_variants_witness:
  "reads_regular_files regular_table
   \<and> regular_file 27 5 None survey_A
   \<and> regular_file 22 0 (Some [''Azimuth'', ''TVD'', ''NS'', ''EW'']) survey_B
   \<and> WellPlot_load_csv regular_table survey_fs
      (WellPlot_init ''well1.csv'' ''well2.csv'' ''well3.csv'' ''well4.csv'')
     = (\<lparr>well1 = Frame stations_A, well2 = Frame stations_B, well3 = Frame stations_B,
         well4 = Frame stations_B\<rparr>, Inr True)
   \<and> (\<exists>header body. drop 27 survey_A = header # body
        \<and> stations_A = map (to_station header) (take (length body - 5) body))
   \<and> stations_B = map (to_station [''Azimuth'', ''TVD'', ''NS'', ''EW'']) (drop 22 survey_B)"
  using load_csv_variants [OF reads_regular_files_regular_table load_survey]
    load_survey regular_surveys reads_regular_files_regular_table
  by (auto simp: WellPlot_init_def survey_fs_def)

text \<open>
  The file \<open>survey_one_row\<close> is regular, both read with one line skipped and read with 27.
  Read with one leading line and five footer lines skipped it gives the two stations;
  \<open>load_csv\<close>, which has 27 lines skipped, finds no header and raises \<open>EmptyDataError\<close>
  without loading anything.
\<close>

theorem load_csv_variant_A_counterexample:
  "regular_file 1 5 None survey_one_row
   \<and> regular_table 1 5 None survey_one_row = Inr stations_A
   \<and> regular_file 27 5 None survey_one_row
   \<and> WellPlot_load_csv regular_table survey_one_row_fs
         (WellPlot_init ''w1'' ''w2'' ''w3'' ''w4'')
       = (WellPlot_init ''w1'' ''w2'' ''w3'' ''w4'', Inl EmptyDataError)"
  using regular_surveys
  by (simp add: regular_table_def survey_one_row_def stations_A_def usecols_def drop_last_def
      to_station_def cell_of_def WellPlot_load_csv_def WellPlot_init_def pd_read_csv_def
      survey_one_row_fs_def)

theorem create_plot_four_wells_witness:
  "WellPlot_create_plot
     \<lparr>well1 = Frame stations_A, well2 = Frame stations_B, well3 = Frame [],
      well4 = Frame stations_B\<rparr>
   = Inr
     [\<lparr>trace_x = [Some ''2'', Some ''4''], trace_y = [Some ''1'', Some ''3''],
       trace_z = [Some ''100'', Some ''150''],
       trace_mode = ''lines'', line_color = ''red'', line_width = 3, trace_name = ''1H''\<rparr>,
      \<lparr>trace_x = [Some ''6''], trace_y = [Some ''5''], trace_z = [Some ''200''],
       trace_mode = ''lines'', line_color = ''blue'', line_width = 3, trace_name = ''2H''\<rparr>,
      \<lparr>trace_x = [], trace_y = [], trace_z = [],
       trace_mode = ''lines'', line_color = ''green'', line_width = 3, trace_name = ''3H''\<rparr>,
      \<lparr>trace_x = [Some ''6''], trace_y = [Some ''5''], trace_z = [Some ''200''],
       trace_mode = ''lines'', line_color = ''orange'', line_width = 3, trace_name = ''4H''\<rparr>]"
  using create_plot_four_wells
    [of "\<lparr>well1 = Frame stations_A, well2 = Frame stations_B, well3 = Frame [],
          well4 = Frame stations_B\<rparr>" stations_A stations_B "[]" stations_B]
  by (simp add: stations_A_def stations_B_def)

section \<open>MSView.py: MSPlot\<close>

subsection \<open>The event catalog\<close>

text \<open>
  A row of the catalog as \<open>pd.read_csv\<close> returns it under the \<open>dtype\<close> argument: \<open>str\<close>
  columns are strings, \<open>int\<close> columns 64-bit integers, \<open>float\<close> columns 64-bit floats.
  A float is represented by the real number it denotes; infinities and NaN are not
  modelled. The operations on floats that round are parameters of the model.
\<close>

type_synonym int64 = "64 word"

record raw_event =
  csv_File_Name :: string
  csv_Easting :: real
  csv_Northing :: real
  csv_Depth_TVDSS :: real
  csv_Origin_Date :: string
  csv_Origin_Time :: string
  csv_Origin_Millisecond :: int64
  csv_Brune_Magnitude :: real
  csv_Stage :: int64

text \<open>
  A point in time is the number of nanoseconds since the epoch, pandas'
  \<open>datetime64[ns]\<close>, or \<open>NaT\<close>, not a time; a duration is a number of nanoseconds,
  \<open>timedelta64[ns]\<close>, or its \<open>NaT\<close>. In both, \<open>NaT\<close> is stored as the least 64-bit
  integer, \<open>-2^63\<close>.
\<close>

datatype timestamp = Ts int | NaT

datatype timedelta = Td int | NaTd

text \<open>A row of \<open>parsed_data\<close>: the columns after the renaming, and \<open>Origin DateTime\<close>.\<close>

record event =
  File_Name :: string
  Easting_ft :: real
  Northing_ft :: real
  Depth_TVDSS_ft :: real
  Origin_Date_MDY :: string
  Origin_Time_HMS :: string
  Origin_Millisecond :: int64
  Brune_Magnitude :: real
  Stage :: int64
  Origin_DateTime :: timestamp

text \<open>
  What a time bound of the plot can hold: a point in time, or a string (the documented
  form, \<open>'YYYY-MM-DD HH:MM:SS'\<close>), which pandas parses when it compares.
\<close>

datatype bound = At timestamp | Text string

text \<open>
  A column of \<open>parsed_data\<close> is a pandas Series with a dtype: \<open>object\<close> (strings),
  \<open>int64\<close>, \<open>float64\<close> or \<open>datetime64[ns]\<close>. An \<open>int64\<close> value is kept as the integer
  it denotes; arithmetic on it wraps around at 64 bits, as numpy's does.
\<close>

datatype series =
    ObjectS "string list"
  | Int64S "int list"
  | Float64S "real list"
  | DatetimeS "timestamp list"

datatype scalar = Str string | Int64 int | Float64 real | Datetime int

text \<open>
  The arguments of \<open>go.Scatter3d\<close> in \<open>create_plot\<close>, which are also the trace it
  returns; \<open>cmin\<close> and \<open>cmax\<close> are \<open>None\<close> where pandas gives NaN or NaT.
\<close>

record ms_trace =
  scatter_x :: "real list"
  scatter_y :: "real list"
  scatter_z :: "real list"
  hover_text :: "string list"
  scatter_mode :: string
  marker_sizemode :: string
  marker_sizeref :: nat
  marker_size :: series
  marker_color :: series
  marker_colorscale :: string
  marker_cmin :: "scalar option"
  marker_cmax :: "scalar option"
  colorbar_title :: string

text \<open>
  What the class calls of pandas, numpy, plotly and Python is taken as it is, a parameter
  of the model:
  \<^item> \<open>to_datetime\<close> is \<open>pd.to_datetime\<close> on a column of strings: the column of the
    points in time, or the exception raised;
  \<^item> \<open>sort_values\<close> is \<open>sort_values(by='Origin DateTime')\<close>;
  \<^item> \<open>Timestamp\<close> is the parser of a string that a datetime column is compared with
    (\<open>None\<close>: the string is no date and the comparison is invalid);
  \<^item> \<open>format_2f\<close> is the format \<open>:.2f\<close> of a float;
  \<^item> \<open>float64_mul\<close> is the product of two floats, rounded to a float;
  \<^item> \<open>plotly_accepts\<close> tells whether the validators of \<open>go.Scatter3d\<close> accept the
    arguments.
\<close>

record library =
  to_datetime :: "string list \<Rightarrow> error + timestamp list"
  sort_values :: "event list \<Rightarrow> event list"
  Timestamp :: "string \<Rightarrow> timestamp option"
  format_2f :: "real \<Rightarrow> string"
  float64_mul :: "real \<Rightarrow> real \<Rightarrow> real"
  plotly_accepts :: "ms_trace \<Rightarrow> bool"

text \<open>
  The catalogs on disk: \<open>None\<close> where \<open>os.path.exists\<close> is false, otherwise what
  \<open>pd.read_csv\<close> makes of the file, its rows or the exception it raises (a missing
  column, a value that is not of the declared type).
\<close>

type_synonym catalogs = "string \<Rightarrow> (error + raw_event list) option"

record MSPlot =
  MScatalog :: "string option"
  color_by :: string
  color_scale :: string
  size_by :: string
  size_range :: "int list"
  plot_start_time :: "bound option"
  plot_end_time :: "bound option"
  title :: string
  data :: "event list option"

text \<open>The constructor; the attribute \<open>data\<close> does not exist until \<open>load_csv\<close> sets it.\<close>

definition MSPlot_init :: MSPlot where
  "MSPlot_init =
     \<lparr>MScatalog = None, color_by = ''Stage'', color_scale = ''Viridis'',
      size_by = ''Brune Magnitude'', size_range = [10, 100],
      plot_start_time = None, plot_end_time = None,
      title = ''3D Bubble Chart of Cumulative Seismic Entries'', data = None\<rparr>"

definition set_colorby :: "string \<Rightarrow> MSPlot \<Rightarrow> MSPlot" where
  "set_colorby c self = self\<lparr>color_by := c\<rparr>"

definition set_colorscale :: "string \<Rightarrow> MSPlot \<Rightarrow> MSPlot" where
  "set_colorscale c self = self\<lparr>color_scale := c\<rparr>"

definition set_sizeby :: "string \<Rightarrow> MSPlot \<Rightarrow> MSPlot" where
  "set_sizeby c self = self\<lparr>size_by := c\<rparr>"

definition set_sizerange :: "int list \<Rightarrow> MSPlot \<Rightarrow> MSPlot" where
  "set_sizerange r self = self\<lparr>size_range := r\<rparr>"

definition set_start_time :: "bound option \<Rightarrow> MSPlot \<Rightarrow> MSPlot" where
  "set_start_time b self = self\<lparr>plot_start_time := b\<rparr>"

definition set_end_time :: "bound option \<Rightarrow> MSPlot \<Rightarrow> MSPlot" where
  "set_end_time b self = self\<lparr>plot_end_time := b\<rparr>"

definition set_title :: "string \<Rightarrow> MSPlot \<Rightarrow> MSPlot" where
  "set_title c self = self\<lparr>title := c\<rparr>"

subsection \<open>Loading: the origin timestamp\<close>

text \<open>An operation on a whole column raises if it raises on one of its values.\<close>

fun sequence :: "(error + 'a) list \<Rightarrow> error + 'a list" where
  "sequence [] = Inr []"
| "sequence (x # xs) =
     (case x of
        Inl e \<Rightarrow> Inl e
      | Inr v \<Rightarrow> (case sequence xs of Inl e \<Rightarrow> Inl e | Inr vs \<Rightarrow> Inr (v # vs)))"

definition in_int64 :: "int \<Rightarrow> bool" where
  "in_int64 n = (- (2 ^ 63) < n \<and> n < 2 ^ 63)"

text \<open>
  \<open>pd.to_timedelta(..., unit='ms')\<close> on one integer of the column: the least 64-bit
  integer is read as \<open>NaT\<close>; otherwise a millisecond is 1000000 nanoseconds, and a
  duration that does not fit 64 bits is refused.
\<close>

definition to_timedelta_ms :: "int64 \<Rightarrow> error + timedelta" where
  "to_timedelta_ms ms =
     (if sint ms = - (2 ^ 63) then Inr NaTd
      else if in_int64 (sint ms * 1000000) then Inr (Td (sint ms * 1000000))
      else Inl OutOfBoundsTimedelta)"

definition pd_to_timedelta_ms :: "int64 list \<Rightarrow> error + timedelta list" where
  "pd_to_timedelta_ms mss = sequence (map to_timedelta_ms mss)"

text \<open>
  The sum of a point in time and a duration: \<open>NaT\<close> if one of them is; otherwise the sum
  of the two integers, refused where it overflows 64 bits, and \<open>NaT\<close> where it is the
  integer that stores \<open>NaT\<close>.
\<close>

definition add_td :: "timestamp \<Rightarrow> timedelta \<Rightarrow> error + timestamp" where
  "add_td t d =
     (case t of
        NaT \<Rightarrow> Inr NaT
      | Ts a \<Rightarrow>
          (case d of
             NaTd \<Rightarrow> Inr NaT
           | Td b \<Rightarrow>
               if a + b = - (2 ^ 63) then Inr NaT
               else if in_int64 (a + b) then Inr (Ts (a + b))
               else Inl OverflowError))"

definition add_timedelta :: "timestamp list \<Rightarrow> timedelta list \<Rightarrow> error + timestamp list" where
  "add_timedelta ts ds = sequence (map (\<lambda>(t, d). add_td t d) (zip ts ds))"

text \<open>The renaming of the columns, and the new column.\<close>

definition parsed_row :: "raw_event \<Rightarrow> timestamp \<Rightarrow> event" where
  "parsed_row r t =
     \<lparr>File_Name = csv_File_Name r, Easting_ft = csv_Easting r,
      Northing_ft = csv_Northing r, Depth_TVDSS_ft = csv_Depth_TVDSS r,
      Origin_Date_MDY = csv_Origin_Date r, Origin_Time_HMS = csv_Origin_Time r,
      Origin_Millisecond = csv_Origin_Millisecond r,
      Brune_Magnitude = csv_Brune_Magnitude r, Stage = csv_Stage r,
      Origin_DateTime = t\<rparr>"

definition MSPlot_load_csv ::
  "library \<Rightarrow> catalogs \<Rightarrow> string \<Rightarrow> MSPlot \<Rightarrow> MSPlot \<times> (error + bool)" where
  "MSPlot_load_csv lib fs path self =
     (case fs path of
        None \<Rightarrow> (self, Inl (FileNotFoundError (''File not found: '' @ path)))
      | Some (Inl e) \<Rightarrow> (self, Inl e)
      | Some (Inr needed_cols) \<Rightarrow>
     (case to_datetime lib
             (map (\<lambda>r. csv_Origin_Date r @ '' '' @ csv_Origin_Time r) needed_cols) of
        Inl e \<Rightarrow> (self, Inl e)
      | Inr dts \<Rightarrow>
     (case pd_to_timedelta_ms (map csv_Origin_Millisecond needed_cols) of
        Inl e \<Rightarrow> (self, Inl e)
      | Inr tds \<Rightarrow>
     (case add_timedelta dts tds of
        Inl e \<Rightarrow> (self, Inl e)
      | Inr origin \<Rightarrow>
          (self\<lparr>data := Some (map (\<lambda>(r, t). parsed_row r t) (zip needed_cols origin))\<rparr>,
           Inr True)))))"

subsection \<open>Columns\<close>

text \<open>\<open>df[name]\<close>: the column of that name, \<open>KeyError\<close> if there is none.\<close>

definition column :: "string \<Rightarrow> event list \<Rightarrow> error + series" where
  "column name df =
     (if name = ''File Name'' then Inr (ObjectS (map File_Name df))
      else if name = ''Easting (ft)'' then Inr (Float64S (map Easting_ft df))
      else if name = ''Northing (ft)'' then Inr (Float64S (map Northing_ft df))
      else if name = ''Depth TVDSS (ft)'' then Inr (Float64S (map Depth_TVDSS_ft df))
      else if name = ''Origin Time - Date (UTC) - MM/DD/YYYY''
        then Inr (ObjectS (map Origin_Date_MDY df))
      else if name = ''Origin Time - Time (UTC) - HH:MM:ss''
        then Inr (ObjectS (map Origin_Time_HMS df))
      else if name = ''Origin Time - Millisecond (UTC)''
        then Inr (Int64S (map (\<lambda>r. sint (Origin_Millisecond r)) df))
      else if name = ''Brune Magnitude'' then Inr (Float64S (map Brune_Magnitude df))
      else if name = ''Stage'' then Inr (Int64S (map (\<lambda>r. sint (Stage r)) df))
      else if name = ''Origin DateTime'' then Inr (DatetimeS (map Origin_DateTime df))
      else Inl (KeyError name))"

definition wrap64 :: "int \<Rightarrow> int" where
  "wrap64 n = signed_take_bit 63 n"

text \<open>
  \<open>abs\<close> of a column. Python's \<open>abs\<close> is not defined on a string, so an \<open>object\<close> column
  with a row raises; numpy's is not defined on datetimes.
\<close>

definition series_abs :: "series \<Rightarrow> error + series" where
  "series_abs s =
     (case s of
        ObjectS xs \<Rightarrow> if xs = [] then Inr (ObjectS []) else Inl TypeError
      | Int64S ns \<Rightarrow> Inr (Int64S (map (\<lambda>n. wrap64 \<bar>n\<bar>) ns))
      | Float64S vs \<Rightarrow> Inr (Float64S (map (\<lambda>v. \<bar>v\<bar>) vs))
      | DatetimeS ts \<Rightarrow> Inl TypeError)"

text \<open>
  A column times the integer \<open>k\<close>: on strings \<open>*\<close> repeats, on \<open>int64\<close> it wraps around,
  on floats it is the float product with \<open>k\<close> as a float.
\<close>

definition series_mul :: "library \<Rightarrow> series \<Rightarrow> nat \<Rightarrow> error + series" where
  "series_mul lib s k =
     (case s of
        ObjectS xs \<Rightarrow> Inr (ObjectS (map (\<lambda>x. concat (replicate k x)) xs))
      | Int64S ns \<Rightarrow> Inr (Int64S (map (\<lambda>n. wrap64 (n * int k)) ns))
      | Float64S vs \<Rightarrow> Inr (Float64S (map (\<lambda>v. float64_mul lib v (real k)) vs))
      | DatetimeS ts \<Rightarrow> Inl TypeError)"

text \<open>
  \<open>min()\<close> and \<open>max()\<close> of a column; rows that are \<open>NaT\<close> are passed over, and of no
  rows the result is NaN or NaT, here \<open>None\<close>.
\<close>

definition list_min :: "'a::linorder list \<Rightarrow> 'a option" where
  "list_min xs = (case xs of [] \<Rightarrow> None | x # ys \<Rightarrow> Some (fold min ys x))"

definition list_max :: "'a::linorder list \<Rightarrow> 'a option" where
  "list_max xs = (case xs of [] \<Rightarrow> None | x # ys \<Rightarrow> Some (fold max ys x))"

fun valid_times :: "timestamp list \<Rightarrow> int list" where
  "valid_times [] = []"
| "valid_times (Ts t # ts) = t # valid_times ts"
| "valid_times (NaT # ts) = valid_times ts"

definition series_min :: "series \<Rightarrow> scalar option" where
  "series_min s =
     (case s of
        ObjectS xs \<Rightarrow> map_option Str (list_min xs)
      | Int64S ns \<Rightarrow> map_option Int64 (list_min ns)
      | Float64S vs \<Rightarrow> map_option Float64 (list_min vs)
      | DatetimeS ts \<Rightarrow> map_option Datetime (list_min (valid_times ts)))"

definition series_max :: "series \<Rightarrow> scalar option" where
  "series_max s =
     (case s of
        ObjectS xs \<Rightarrow> map_option Str (list_max xs)
      | Int64S ns \<Rightarrow> map_option Int64 (list_max ns)
      | Float64S vs \<Rightarrow> map_option Float64 (list_max vs)
      | DatetimeS ts \<Rightarrow> map_option Datetime (list_max (valid_times ts)))"

text \<open>The same of the column \<open>Origin DateTime\<close>, as a point in time.\<close>

definition datetime_min :: "event list \<Rightarrow> timestamp" where
  "datetime_min df =
     (case list_min (valid_times (map Origin_DateTime df)) of None \<Rightarrow> NaT | Some t \<Rightarrow> Ts t)"

definition datetime_max :: "event list \<Rightarrow> timestamp" where
  "datetime_max df =
     (case list_max (valid_times (map Origin_DateTime df)) of None \<Rightarrow> NaT | Some t \<Rightarrow> Ts t)"

subsection \<open>The window filter\<close>

text \<open>
  The value a datetime column is compared with: a point in time is taken as it is, a
  string is parsed (\<open>TypeError\<close> if it is no date), and \<open>None\<close> cannot be compared.
\<close>

definition comparand :: "library \<Rightarrow> bound option \<Rightarrow> error + timestamp" where
  "comparand lib b =
     (case b of
        None \<Rightarrow> Inl TypeError
      | Some (At t) \<Rightarrow> Inr t
      | Some (Text s) \<Rightarrow>
          (case Timestamp lib s of None \<Rightarrow> Inl TypeError | Some t \<Rightarrow> Inr t))"

text \<open>
  \<open>t >= b\<close> and \<open>t <= b\<close> for a value of the column; with \<open>NaT\<close> on either side both
  are false.
\<close>

definition ge_bound :: "timestamp \<Rightarrow> timestamp \<Rightarrow> bool" where
  "ge_bound t b =
     (case t of NaT \<Rightarrow> False | Ts a \<Rightarrow> (case b of NaT \<Rightarrow> False | Ts v \<Rightarrow> v \<le> a))"

definition le_bound :: "timestamp \<Rightarrow> timestamp \<Rightarrow> bool" where
  "le_bound t b =
     (case t of NaT \<Rightarrow> False | Ts a \<Rightarrow> (case b of NaT \<Rightarrow> False | Ts v \<Rightarrow> a \<le> v))"

text \<open>
  \<open>df_100[(df_100['Origin DateTime'] >= start) & (df_100['Origin DateTime'] <= end)]\<close>
\<close>

definition window_filter ::
  "library \<Rightarrow> bound option \<Rightarrow> bound option \<Rightarrow> event list \<Rightarrow> error + event list" where
  "window_filter lib start_time end_time df_100 =
     (case comparand lib start_time of
        Inl e \<Rightarrow> Inl e
      | Inr lower \<Rightarrow>
     (case comparand lib end_time of
        Inl e \<Rightarrow> Inl e
      | Inr upper \<Rightarrow>
          Inr (filter (\<lambda>r. ge_bound (Origin_DateTime r) lower
                         \<and> le_bound (Origin_DateTime r) upper) df_100)))"

subsection \<open>The point cloud\<close>

definition str_int :: "int \<Rightarrow> string" where
  "str_int n = (if n < 0 then ''-'' @ str_nat (nat (- n)) else str_nat (nat n))"

text \<open>The hover text of a row.\<close>

definition hover :: "library \<Rightarrow> event \<Rightarrow> string" where
  "hover lib row =
     ''File: '' @ File_Name row @ ''<br>Stage: '' @ str_int (sint (Stage row))
     @ ''<br>Magnitude: '' @ format_2f lib (Brune_Magnitude row)"

text \<open>\<open>abs(df_filtered[self.size_by]) * 100\<close>\<close>

definition size_encoding :: "library \<Rightarrow> string \<Rightarrow> event list \<Rightarrow> error + series" where
  "size_encoding lib name df_filtered =
     (case column name df_filtered of
        Inl e \<Rightarrow> Inl e
      | Inr s \<Rightarrow>
     (case series_abs s of
        Inl e \<Rightarrow> Inl e
      | Inr a \<Rightarrow> series_mul lib a 100))"

text \<open>The colour of each row, and the two ends of the colour range.\<close>

definition color_encoding ::
  "string \<Rightarrow> event list \<Rightarrow> error + series \<times> scalar option \<times> scalar option" where
  "color_encoding name df_filtered =
     (case column name df_filtered of
        Inl e \<Rightarrow> Inl e
      | Inr c \<Rightarrow> Inr (c, series_min c, series_max c))"

text \<open>
  The constructor \<open>go.Scatter3d\<close>: plotly validates the arguments, raises \<open>ValueError\<close>
  on those it does not accept, and keeps the others.
\<close>

definition go_Scatter3d :: "library \<Rightarrow> ms_trace \<Rightarrow> error + ms_trace" where
  "go_Scatter3d lib args = (if plotly_accepts lib args then Inr args else Inl ValueError)"

text \<open>
  The call of \<open>go.Scatter3d\<close> in \<open>create_plot\<close>, its arguments evaluated in the order
  they are written, before the constructor sees them.
\<close>

definition Scatter3d_markers :: "library \<Rightarrow> MSPlot \<Rightarrow> event list \<Rightarrow> error + ms_trace" where
  "Scatter3d_markers lib self df_filtered =
     (case size_encoding lib (size_by self) df_filtered of
        Inl e \<Rightarrow> Inl e
      | Inr sizes \<Rightarrow>
     (case color_encoding (color_by self) df_filtered of
        Inl e \<Rightarrow> Inl e
      | Inr (color, cmin, cmax) \<Rightarrow>
          go_Scatter3d lib
            \<lparr>scatter_x = map Easting_ft df_filtered,
             scatter_y = map Northing_ft df_filtered,
             scatter_z = map Depth_TVDSS_ft df_filtered,
             hover_text = map (hover lib) df_filtered,
             scatter_mode = ''markers'',
             marker_sizemode = ''diameter'',
             marker_sizeref = 25,
             marker_size = sizes,
             marker_color = color,
             marker_colorscale = color_scale self,
             marker_cmin = cmin,
             marker_cmax = cmax,
             colorbar_title = color_by self\<rparr>))"

text \<open>The two assignments that fill in an unset bound.\<close>

definition default_bounds :: "event list \<Rightarrow> MSPlot \<Rightarrow> MSPlot" where
  "default_bounds df_100 self =
     (let self = (if plot_start_time self = None
                  then self\<lparr>plot_start_time := Some (At (datetime_min df_100))\<rparr>
                  else self);
          self = (if plot_end_time self = None
                  then self\<lparr>plot_end_time := Some (At (datetime_max df_100))\<rparr>
                  else self)
      in self)"

text \<open>
  \<open>create_plot\<close>. Reading \<open>self.data\<close> before \<open>load_csv\<close> has set it raises
  \<open>AttributeError\<close>. The bounds are assigned before the filter and the trace are
  computed, so they stay assigned when one of these raises.
\<close>

definition MSPlot_create_plot :: "library \<Rightarrow> MSPlot \<Rightarrow> MSPlot \<times> (error + ms_trace)" where
  "MSPlot_create_plot lib self =
     (case data self of
        None \<Rightarrow> (self, Inl AttributeError)
      | Some d \<Rightarrow>
          let df_100 = take 101 d;
              df_100 = sort_values lib df_100;
              self = default_bounds df_100 self
          in (case window_filter lib (plot_start_time self) (plot_end_time self) df_100 of
                Inl e \<Rightarrow> (self, Inl e)
              | Inr df_filtered \<Rightarrow> (self, Scatter3d_markers lib self df_filtered)))"

subsection \<open>What the claims speak of\<close>

text \<open>
  The values of a column, row by row (of a datetime column, the rows that are points in
  time), and the order in which two of one kind stand.
\<close>

fun scalars :: "series \<Rightarrow> scalar list" where
  "scalars (ObjectS xs) = map Str xs"
| "scalars (Int64S ns) = map Int64 ns"
| "scalars (Float64S vs) = map Float64 vs"
| "scalars (DatetimeS ts) = map Datetime (valid_times ts)"

fun scalar_le :: "scalar \<Rightarrow> scalar \<Rightarrow> bool" where
  "scalar_le (Str a) (Str b) = (a \<le> b)"
| "scalar_le (Int64 a) (Int64 b) = (a \<le> b)"
| "scalar_le (Float64 a) (Float64 b) = (a \<le> b)"
| "scalar_le (Datetime a) (Datetime b) = (a \<le> b)"
| "scalar_le _ _ = False"

text \<open>
  A row lies in the window from \<open>lo\<close> to \<open>hi\<close> if its timestamp is a point in time
  between the two, both included; and the points in time that occur as timestamps of the
  rows of a table.
\<close>

definition in_window :: "int \<Rightarrow> int \<Rightarrow> event \<Rightarrow> bool" where
  "in_window lo hi r = (case Origin_DateTime r of Ts t \<Rightarrow> lo \<le> t \<and> t \<le> hi | NaT \<Rightarrow> False)"

definition times_of :: "event list \<Rightarrow> int set" where
  "times_of df = (\<Union>r \<in> set df. case Origin_DateTime r of Ts t \<Rightarrow> {t} | NaT \<Rightarrow> {})"

text \<open>
  An encoding in numbers, as \<open>create_plot\<close> makes it of numeric columns: the mode and
  the size mode are those that \<open>create_plot\<close> passes, the sizes are numbers and none is
  negative, the colours are numbers, the two ends of the colour range are numbers, and
  the colour scale is the default one.
\<close>

fun nonnegative_numbers :: "series \<Rightarrow> bool" where
  "nonnegative_numbers (Int64S ns) = list_all (\<lambda>n. 0 \<le> n) ns"
| "nonnegative_numbers (Float64S vs) = list_all (\<lambda>v. 0 \<le> v) vs"
| "nonnegative_numbers _ = False"

fun numbers :: "series \<Rightarrow> bool" where
  "numbers (Int64S ns) = True"
| "numbers (Float64S vs) = True"
| "numbers _ = False"

fun number :: "scalar option \<Rightarrow> bool" where
  "number (Some (Int64 n)) = True"
| "number (Some (Float64 v)) = True"
| "number _ = False"

definition numeric_encoding :: "ms_trace \<Rightarrow> bool" where
  "numeric_encoding args =
     (scatter_mode args = ''markers'' \<and> marker_sizemode args = ''diameter''
      \<and> nonnegative_numbers (marker_size args) \<and> numbers (marker_color args)
      \<and> number (marker_cmin args) \<and> number (marker_cmax args)
      \<and> marker_colorscale args = ''Viridis'')"

subsection \<open>An example catalog\<close>

text \<open>
  Three events on one day, in the file in the order third, first, second, with magnitudes
  -2.0, -1.2, -0.5 and stages 2, 1, 1. The magnitude written -1.2 is the float nearest to
  it, \<open>-5404319552844595 / 2^52\<close>. The library functions are given on what the example
  needs: the parsers on the strings that occur, the sorting as a stable sort by
  \<open>Origin DateTime\<close> with \<open>NaT\<close> last, the format on the three magnitudes, the float
  product exact except on the one product of the example that is rounded, and plotly
  accepting sizes that are numbers and not negative with colours that are numbers on the
  colour scale Viridis.
\<close>

definition example_datetime :: "string \<Rightarrow> int option" where
  "example_datetime s =
     (if s = ''03/09/2025 12:00:01'' then Some 1741521601000000000
      else if s = ''03/09/2025 12:00:02'' then Some 1741521602000000000
      else if s = ''03/09/2025 12:00:03'' then Some 1741521603000000000
      else None)"

definition example_lib :: library where
  "example_lib =
     \<lparr>to_datetime = (\<lambda>strs. sequence (map (\<lambda>s.
        case example_datetime s of None \<Rightarrow> Inl ValueError | Some t \<Rightarrow> Inr (Ts t)) strs)),
      sort_values = sort_key (\<lambda>r. case Origin_DateTime r of Ts t \<Rightarrow> t | NaT \<Rightarrow> 2 ^ 63),
      Timestamp = (\<lambda>s.
        if s = ''2025-03-09 12:00:02'' then Some (Ts 1741521602000000000)
        else if s = ''2025-03-09 12:00:03'' then Some (Ts 1741521603000000000)
        else None),
      format_2f = (\<lambda>v.
        if v = - (5404319552844595 / 4503599627370496) then ''-1.20''
        else if v = - 0.5 then ''-0.50''
        else if v = - 2 then ''-2.00'' else ''?''),
      float64_mul = (\<lambda>a b.
        if a = 5404319552844595 / 4503599627370496 \<and> b = 100 then 120 else a * b),
      plotly_accepts = (\<lambda>a. nonnegative_numbers (marker_size a) \<and> numbers (marker_color a)
        \<and> marker_colorscale a = ''Viridis'')\<rparr>"

definition example_rows :: "raw_event list" where
  "example_rows =
     [\<lparr>csv_File_Name = ''ev3'', csv_Easting = 30, csv_Northing = 31, csv_Depth_TVDSS = 32,
       csv_Origin_Date = ''03/09/2025'', csv_Origin_Time = ''12:00:03'',
       csv_Origin_Millisecond = 999, csv_Brune_Magnitude = - 2, csv_Stage = 2\<rparr>,
      \<lparr>csv_File_Name = ''ev1'', csv_Easting = 10, csv_Northing = 11, csv_Depth_TVDSS = 12,
       csv_Origin_Date = ''03/09/2025'', csv_Origin_Time = ''12:00:01'',
       csv_Origin_Millisecond = 250,
       csv_Brune_Magnitude = - (5404319552844595 / 4503599627370496), csv_Stage = 1\<rparr>,
      \<lparr>csv_File_Name = ''ev2'', csv_Easting = 20, csv_Northing = 21, csv_Depth_TVDSS = 22,
       csv_Origin_Date = ''03/09/2025'', csv_Origin_Time = ''12:00:02'',
       csv_Origin_Millisecond = 0, csv_Brune_Magnitude = - 0.5, csv_Stage = 1\<rparr>]"

text \<open>
  A second catalog of one row, whose millisecond field is the least 64-bit integer.
\<close>

definition example_row_least :: raw_event where
  "example_row_least =
     \<lparr>csv_File_Name = ''ev4'', csv_Easting = 40, csv_Northing = 41, csv_Depth_TVDSS = 42,
      csv_Origin_Date = ''03/09/2025'', csv_Origin_Time = ''12:00:01'',
      csv_Origin_Millisecond = - 9223372036854775808, csv_Brune_Magnitude = - 0.5,
      csv_Stage = 1\<rparr>"

definition example_catalogs :: catalogs where
  "example_catalogs p =
     (if p = ''catalog.csv'' then Some (Inr example_rows)
      else if p = ''least.csv'' then Some (Inr [example_row_least])
      else None)"

text \<open>The three loaded rows, and the traces of all three and of the first two.\<close>

definition ev1 :: event where
  "ev1 = \<lparr>File_Name = ''ev1'', Easting_ft = 10, Northing_ft = 11,
            Depth_TVDSS_ft = 12, Origin_Date_MDY = ''03/09/2025'',
            Origin_Time_HMS = ''12:00:01'', Origin_Millisecond = 250,
            Brune_Magnitude = - (5404319552844595 / 4503599627370496), Stage = 1,
            Origin_DateTime = Ts 1741521601250000000\<rparr>"

definition ev2 :: event where
  "ev2 = \<lparr>File_Name = ''ev2'', Easting_ft = 20, Northing_ft = 21,
            Depth_TVDSS_ft = 22, Origin_Date_MDY = ''03/09/2025'',
            Origin_Time_HMS = ''12:00:02'', Origin_Millisecond = 0,
            Brune_Magnitude = - 0.5, Stage = 1,
            Origin_DateTime = Ts 1741521602000000000\<rparr>"

definition ev3 :: event where
  "ev3 = \<lparr>File_Name = ''ev3'', Easting_ft = 30, Northing_ft = 31,
            Depth_TVDSS_ft = 32, Origin_Date_MDY = ''03/09/2025'',
            Origin_Time_HMS = ''12:00:03'', Origin_Millisecond = 999,
            Brune_Magnitude = - 2, Stage = 2,
            Origin_DateTime = Ts 1741521603999000000\<rparr>"

definition example_trace :: ms_trace where
  "example_trace =
     \<lparr>scatter_x = [10, 20, 30], scatter_y = [11, 21, 31], scatter_z = [12, 22, 32],
      hover_text =
        [''File: ev1<br>Stage: 1<br>Magnitude: -1.20'',
         ''File: ev2<br>Stage: 1<br>Magnitude: -0.50'',
         ''File: ev3<br>Stage: 2<br>Magnitude: -2.00''],
      scatter_mode = ''markers'', marker_sizemode = ''diameter'',
      marker_sizeref = 25, marker_size = Float64S [120, 50, 200],
      marker_color = Int64S [1, 1, 2], marker_colorscale = ''Viridis'',
      marker_cmin = Some (Int64 1), marker_cmax = Some (Int64 2),
      colorbar_title = ''Stage''\<rparr>"

definition example_trace_window :: ms_trace where
  "example_trace_window =
     \<lparr>scatter_x = [10, 20], scatter_y = [11, 21], scatter_z = [12, 22],
      hover_text =
        [''File: ev1<br>Stage: 1<br>Magnitude: -1.20'',
         ''File: ev2<br>Stage: 1<br>Magnitude: -0.50''],
      scatter_mode = ''markers'', marker_sizemode = ''diameter'',
      marker_sizeref = 25, marker_size = Float64S [120, 50],
      marker_color = Int64S [1, 1], marker_colorscale = ''Viridis'',
      marker_cmin = Some (Int64 1), marker_cmax = Some (Int64 1),
      colorbar_title = ''Stage''\<rparr>"

definition example_trace_empty :: ms_trace where
  "example_trace_empty =
     \<lparr>scatter_x = [], scatter_y = [], scatter_z = [], hover_text = [],
      scatter_mode = ''markers'', marker_sizemode = ''diameter'',
      marker_sizeref = 25, marker_size = Float64S [],
      marker_color = Int64S [], marker_colorscale = ''Viridis'',
      marker_cmin = None, marker_cmax = None,
      colorbar_title = ''Stage''\<rparr>"

text \<open>
  The row loaded from the second catalog; and an event of stage 184467440737095517, with
  the trace of it alone when the size attribute is \<open>Stage\<close>.
\<close>

definition ev_least :: event where
  "ev_least = \<lparr>File_Name = ''ev4'', Easting_ft = 40, Northing_ft = 41,
            Depth_TVDSS_ft = 42, Origin_Date_MDY = ''03/09/2025'',
            Origin_Time_HMS = ''12:00:01'', Origin_Millisecond = - 9223372036854775808,
            Brune_Magnitude = - 0.5, Stage = 1,
            Origin_DateTime = NaT\<rparr>"

definition ev_stage :: event where
  "ev_stage = \<lparr>File_Name = ''ev5'', Easting_ft = 50, Northing_ft = 51,
            Depth_TVDSS_ft = 52, Origin_Date_MDY = ''03/09/2025'',
            Origin_Time_HMS = ''12:00:02'', Origin_Millisecond = 0,
            Brune_Magnitude = - 0.5, Stage = 184467440737095517,
            Origin_DateTime = Ts 1741521602000000000\<rparr>"

definition example_trace_stage :: ms_trace where
  "example_trace_stage =
     \<lparr>scatter_x = [50], scatter_y = [51], scatter_z = [52],
      hover_text = [''File: ev5<br>Stage: 184467440737095517<br>Magnitude: -0.50''],
      scatter_mode = ''markers'', marker_sizemode = ''diameter'',
      marker_sizeref = 25, marker_size = Int64S [84],
      marker_color = Int64S [184467440737095517], marker_colorscale = ''Viridis'',
      marker_cmin = Some (Int64 184467440737095517),
      marker_cmax = Some (Int64 184467440737095517),
      colorbar_title = ''Stage''\<rparr>"

subsection \<open>The origin timestamp of a loaded row\<close>

lemma sequence_map_Inr: "sequence (map Inr vs) = Inr vs"
  by (induction vs) simp_all

lemma sequence_Inr_D: "sequence xs = Inr vs \<Longrightarrow> xs = map Inr vs"
proof (induction xs arbitrary: vs)
  case Nil
  then show ?case by simp
next
  case (Cons x xs)
  then show ?case by (auto split: sum.splits)
qed

lemma sequence_Inr: "sequence xs = Inr vs \<longleftrightarrow> xs = map Inr vs"
  using sequence_Inr_D sequence_map_Inr by blast

lemma sequence_nth:
  assumes "sequence (map f xs) = Inr vs"
  shows "length vs = length xs" and "i < length xs \<Longrightarrow> f (xs ! i) = Inr (vs ! i)"
proof -
  from assms have eq: "map f xs = map Inr vs" by (simp add: sequence_Inr)
  then have "length (map f xs) = length (map Inr vs)" by simp
  then show len: "length vs = length xs" by simp
  assume i: "i < length xs"
  from eq have "map f xs ! i = map Inr vs ! i" by simp
  with i len show "f (xs ! i) = Inr (vs ! i)" by simp
qed

lemma MSPlot_load_csv_Inr:
  assumes "MSPlot_load_csv lib fs path self = (self', Inr ok)"
  shows "\<exists>rows ts ds origin.
      fs path = Some (Inr rows)
    \<and> to_datetime lib (map (\<lambda>r. csv_Origin_Date r @ '' '' @ csv_Origin_Time r) rows) = Inr ts
    \<and> pd_to_timedelta_ms (map csv_Origin_Millisecond rows) = Inr ds
    \<and> add_timedelta ts ds = Inr origin
    \<and> self' = self\<lparr>data := Some (map (\<lambda>(r, t). parsed_row r t) (zip rows origin))\<rparr>"
  using assms
  by (auto simp: MSPlot_load_csv_def split: option.splits sum.splits)

lemma add_td_cases:
  assumes "add_td t d = Inr u"
  shows "(t = NaT \<longrightarrow> u = NaT) \<and> (d = NaTd \<longrightarrow> u = NaT)
    \<and> (\<forall>a b. t = Ts a \<and> d = Td b \<longrightarrow>
          (a + b = - (2 ^ 63) \<longrightarrow> u = NaT)
        \<and> (a + b \<noteq> - (2 ^ 63) \<longrightarrow> u = Ts (a + b) \<and> in_int64 (a + b)))"
  using assms
  by (auto simp: add_td_def split: timestamp.splits timedelta.splits if_splits)

lemma to_timedelta_ms_cases:
  assumes "to_timedelta_ms ms = Inr d"
  shows "(sint ms = - (2 ^ 63) \<longrightarrow> d = NaTd)
    \<and> (sint ms \<noteq> - (2 ^ 63) \<longrightarrow> d = Td (sint ms * 1000000))"
  using assms by (auto simp: to_timedelta_ms_def split: if_splits)

text \<open>
  C1, as amended. After a successful \<open>load_csv\<close> every row of the loaded table carries the
  date, time and millisecond fields of its row of the file, and its \<open>Origin DateTime\<close> is
  made of the point in time \<open>t0\<close> that \<open>pd.to_datetime\<close> gives for the date and time
  strings joined by a blank, and of the millisecond count \<open>ms\<close>, as follows. Where \<open>t0\<close>
  is a point in time, \<open>ms\<close> is not the least 64-bit integer and \<open>t0\<close> plus \<open>ms\<close>
  milliseconds is not the least 64-bit number of nanoseconds, \<open>Origin DateTime\<close> is \<open>t0\<close>
  plus \<open>ms\<close> milliseconds: the difference from \<open>t0\<close> is a whole number of milliseconds and
  is exactly \<open>ms\<close>, nothing of it being rounded or cut off. In the three other cases the
  row is loaded with \<open>Origin DateTime\<close> not a time, \<open>NaT\<close>. Of \<open>pd.to_datetime\<close> only
  that it gives one value for each string is assumed.
\<close>

theorem load_csv_origin_datetime:
  assumes "MSPlot_load_csv lib fs path self = (self', Inr ok)"
    and "\<forall>strs ts. to_datetime lib strs = Inr ts \<longrightarrow> length ts = length strs"
  shows "\<exists>rows evs ts.
      fs path = Some (Inr rows) \<and> data self' = Some evs \<and> length evs = length rows
    \<and> to_datetime lib (map (\<lambda>r. csv_Origin_Date r @ '' '' @ csv_Origin_Time r) rows) = Inr ts
    \<and> length ts = length rows
    \<and> (\<forall>i<length rows.
          File_Name (evs ! i) = csv_File_Name (rows ! i)
        \<and> Origin_Date_MDY (evs ! i) = csv_Origin_Date (rows ! i)
        \<and> Origin_Time_HMS (evs ! i) = csv_Origin_Time (rows ! i)
        \<and> Origin_Millisecond (evs ! i) = csv_Origin_Millisecond (rows ! i)
        \<and> (ts ! i = NaT \<longrightarrow> Origin_DateTime (evs ! i) = NaT)
        \<and> (sint (Origin_Millisecond (evs ! i)) = - (2 ^ 63) \<longrightarrow>
              Origin_DateTime (evs ! i) = NaT)
        \<and> (\<forall>t0. ts ! i = Ts t0 \<and> sint (Origin_Millisecond (evs ! i)) \<noteq> - (2 ^ 63) \<longrightarrow>
              (t0 + sint (Origin_Millisecond (evs ! i)) * 1000000 = - (2 ^ 63) \<longrightarrow>
                  Origin_DateTime (evs ! i) = NaT)
            \<and> (t0 + sint (Origin_Millisecond (evs ! i)) * 1000000 \<noteq> - (2 ^ 63) \<longrightarrow>
                  (\<exists>t. Origin_DateTime (evs ! i) = Ts t
                     \<and> t = t0 + sint (Origin_Millisecond (evs ! i)) * 1000000
                     \<and> (t - t0) div 1000000 = sint (Origin_Millisecond (evs ! i))
                     \<and> (t - t0) mod 1000000 = 0))))"
proof -
  from MSPlot_load_csv_Inr [OF assms(1)] obtain rows ts ds origin where
    fs: "fs path = Some (Inr rows)"
    and ts: "to_datetime lib
        (map (\<lambda>r. csv_Origin_Date r @ '' '' @ csv_Origin_Time r) rows) = Inr ts"
    and ds: "pd_to_timedelta_ms (map csv_Origin_Millisecond rows) = Inr ds"
    and origin: "add_timedelta ts ds = Inr origin"
    and self': "self' = self\<lparr>data := Some (map (\<lambda>(r, t). parsed_row r t) (zip rows origin))\<rparr>"
    by blast
  define evs where "evs = map (\<lambda>(r, t). parsed_row r t) (zip rows origin)"
  from assms(2) [rule_format, OF ts] have lts: "length ts = length rows" by simp
  from ds have ds': "sequence (map to_timedelta_ms (map csv_Origin_Millisecond rows)) = Inr ds"
    by (simp add: pd_to_timedelta_ms_def)
  from sequence_nth(1) [OF ds'] have lds: "length ds = length rows" by simp
  from origin have origin': "sequence (map (\<lambda>(t, d). add_td t d) (zip ts ds)) = Inr origin"
    by (simp add: add_timedelta_def)
  from sequence_nth(1) [OF origin'] lts lds have lo: "length origin = length rows" by simp
  then have levs: "length evs = length rows" by (simp add: evs_def)
  have d: "data self' = Some evs" by (simp add: self' evs_def)
  have row: "File_Name (evs ! i) = csv_File_Name (rows ! i)
        \<and> Origin_Date_MDY (evs ! i) = csv_Origin_Date (rows ! i)
        \<and> Origin_Time_HMS (evs ! i) = csv_Origin_Time (rows ! i)
        \<and> Origin_Millisecond (evs ! i) = csv_Origin_Millisecond (rows ! i)
        \<and> (ts ! i = NaT \<longrightarrow> Origin_DateTime (evs ! i) = NaT)
        \<and> (sint (Origin_Millisecond (evs ! i)) = - (2 ^ 63) \<longrightarrow>
              Origin_DateTime (evs ! i) = NaT)
        \<and> (\<forall>t0. ts ! i = Ts t0 \<and> sint (Origin_Millisecond (evs ! i)) \<noteq> - (2 ^ 63) \<longrightarrow>
              (t0 + sint (Origin_Millisecond (evs ! i)) * 1000000 = - (2 ^ 63) \<longrightarrow>
                  Origin_DateTime (evs ! i) = NaT)
            \<and> (t0 + sint (Origin_Millisecond (evs ! i)) * 1000000 \<noteq> - (2 ^ 63) \<longrightarrow>
                  (\<exists>t. Origin_DateTime (evs ! i) = Ts t
                     \<and> t = t0 + sint (Origin_Millisecond (evs ! i)) * 1000000
                     \<and> (t - t0) div 1000000 = sint (Origin_Millisecond (evs ! i))
                     \<and> (t - t0) mod 1000000 = 0)))" if i: "i < length rows" for i
  proof -
    let ?ms = "csv_Origin_Millisecond (rows ! i)"
    from i lo have e: "evs ! i = parsed_row (rows ! i) (origin ! i)"
      by (simp add: evs_def)
    from sequence_nth(2) [OF ds', of i] i
    have td: "to_timedelta_ms ?ms = Inr (ds ! i)" by simp
    from sequence_nth(2) [OF origin', of i] i lts lds
    have sum: "add_td (ts ! i) (ds ! i) = Inr (origin ! i)" by simp
    note c1 = to_timedelta_ms_cases [OF td]
    note c2 = add_td_cases [OF sum]
    have f: "File_Name (evs ! i) = csv_File_Name (rows ! i)"
      "Origin_Date_MDY (evs ! i) = csv_Origin_Date (rows ! i)"
      "Origin_Time_HMS (evs ! i) = csv_Origin_Time (rows ! i)"
      "Origin_Millisecond (evs ! i) = ?ms"
      "Origin_DateTime (evs ! i) = origin ! i"
      by (simp_all add: e parsed_row_def)
    show ?thesis
      unfolding f using c1 c2 by auto
  qed
  show ?thesis
    apply (rule exI [of _ rows])
    apply (rule exI [of _ evs])
    apply (rule exI [of _ ts])
    using fs d levs ts lts row
    apply blast
    done
qed

subsection \<open>The parts of \<open>create_plot\<close>\<close>

lemma list_min_eq: "list_min xs = (if xs = [] then None else Some (Min (set xs)))"
proof (cases xs)
  case Nil
  then show ?thesis by (simp add: list_min_def)
next
  case (Cons a ys)
  with Min.set_eq_fold [of a ys] show ?thesis by (simp add: list_min_def)
qed

lemma list_max_eq: "list_max xs = (if xs = [] then None else Some (Max (set xs)))"
proof (cases xs)
  case Nil
  then show ?thesis by (simp add: list_max_def)
next
  case (Cons a ys)
  with Max.set_eq_fold [of a ys] show ?thesis by (simp add: list_max_def)
qed

lemma wrap64_id: "- (2 ^ 63) \<le> n \<Longrightarrow> n < 2 ^ 63 \<Longrightarrow> wrap64 n = n"
  by (simp add: wrap64_def signed_take_bit_int_eq_self)

lemma default_bounds_simps:
  "plot_start_time (default_bounds df self)
     = (case plot_start_time self of None \<Rightarrow> Some (At (datetime_min df)) | Some b \<Rightarrow> Some b)"
  "plot_end_time (default_bounds df self)
     = (case plot_end_time self of None \<Rightarrow> Some (At (datetime_max df)) | Some b \<Rightarrow> Some b)"
  "size_by (default_bounds df self) = size_by self"
  "color_by (default_bounds df self) = color_by self"
  "color_scale (default_bounds df self) = color_scale self"
  "data (default_bounds df self) = data self"
  by (auto simp: default_bounds_def Let_def split: option.splits)

lemma Scatter3d_markers_default_bounds:
  "Scatter3d_markers lib (default_bounds df self) f = Scatter3d_markers lib self f"
  by (simp add: Scatter3d_markers_def default_bounds_simps cong: sum.case_cong prod.case_cong)

lemma create_plot_Some:
  assumes "data self = Some d"
  shows "MSPlot_create_plot lib self =
    (default_bounds (sort_values lib (take 101 d)) self,
     case window_filter lib
            (plot_start_time (default_bounds (sort_values lib (take 101 d)) self))
            (plot_end_time (default_bounds (sort_values lib (take 101 d)) self))
            (sort_values lib (take 101 d)) of
       Inl e \<Rightarrow> Inl e
     | Inr df \<Rightarrow> Scatter3d_markers lib self df)"
  using assms
  by (simp add: MSPlot_create_plot_def Let_def Scatter3d_markers_default_bounds
      split: sum.splits)

lemma create_plot_Inr:
  assumes "MSPlot_create_plot lib self = (self', Inr t)"
  shows "\<exists>d df. data self = Some d
    \<and> self' = default_bounds (sort_values lib (take 101 d)) self
    \<and> window_filter lib (plot_start_time self') (plot_end_time self')
         (sort_values lib (take 101 d)) = Inr df
    \<and> Scatter3d_markers lib self df = Inr t"
proof (cases "data self")
  case None
  with assms show ?thesis by (simp add: MSPlot_create_plot_def)
next
  case (Some d)
  from assms show ?thesis
    unfolding create_plot_Some [OF Some] using Some
    by (auto split: sum.splits)
qed

lemma Scatter3d_markers_Inr:
  assumes "Scatter3d_markers lib self df = Inr t"
  shows "\<exists>sizes col. size_encoding lib (size_by self) df = Inr sizes
    \<and> column (color_by self) df = Inr col
    \<and> plotly_accepts lib t
    \<and> t = \<lparr>scatter_x = map Easting_ft df,
               scatter_y = map Northing_ft df,
               scatter_z = map Depth_TVDSS_ft df,
               hover_text = map (hover lib) df,
               scatter_mode = ''markers'',
               marker_sizemode = ''diameter'',
               marker_sizeref = 25,
               marker_size = sizes,
               marker_color = col,
               marker_colorscale = color_scale self,
               marker_cmin = series_min col,
               marker_cmax = series_max col,
               colorbar_title = color_by self\<rparr>"
  using assms
  by (auto simp: Scatter3d_markers_def color_encoding_def go_Scatter3d_def
      split: sum.splits if_splits)

lemma Scatter3d_markers_accepted:
  assumes "size_encoding lib (size_by self) df = Inr sizes"
    and "column (color_by self) df = Inr col"
    and "t = \<lparr>scatter_x = map Easting_ft df,
               scatter_y = map Northing_ft df,
               scatter_z = map Depth_TVDSS_ft df,
               hover_text = map (hover lib) df,
               scatter_mode = ''markers'',
               marker_sizemode = ''diameter'',
               marker_sizeref = 25,
               marker_size = sizes,
               marker_color = col,
               marker_colorscale = color_scale self,
               marker_cmin = series_min col,
               marker_cmax = series_max col,
               colorbar_title = color_by self\<rparr>"
    and "plotly_accepts lib t"
  shows "Scatter3d_markers lib self df = Inr t"
  using assms(4) unfolding assms(3)
  by (simp add: Scatter3d_markers_def color_encoding_def go_Scatter3d_def assms(1,2))

lemma column_names:
  "column ''File Name'' df = Inr (ObjectS (map File_Name df))"
  "column ''Easting (ft)'' df = Inr (Float64S (map Easting_ft df))"
  "column ''Northing (ft)'' df = Inr (Float64S (map Northing_ft df))"
  "column ''Depth TVDSS (ft)'' df = Inr (Float64S (map Depth_TVDSS_ft df))"
  "column ''Origin Time - Date (UTC) - MM/DD/YYYY'' df = Inr (ObjectS (map Origin_Date_MDY df))"
  "column ''Origin Time - Time (UTC) - HH:MM:ss'' df = Inr (ObjectS (map Origin_Time_HMS df))"
  "column ''Origin Time - Millisecond (UTC)'' df
     = Inr (Int64S (map (\<lambda>r. sint (Origin_Millisecond r)) df))"
  "column ''Brune Magnitude'' df = Inr (Float64S (map Brune_Magnitude df))"
  "column ''Stage'' df = Inr (Int64S (map (\<lambda>r. sint (Stage r)) df))"
  "column ''Origin DateTime'' df = Inr (DatetimeS (map Origin_DateTime df))"
  by (simp_all add: column_def)

lemma column_Inr_name:
  assumes "column name df = Inr col"
  shows "name = ''File Name'' \<or> name = ''Easting (ft)'' \<or> name = ''Northing (ft)''
     \<or> name = ''Depth TVDSS (ft)'' \<or> name = ''Origin Time - Date (UTC) - MM/DD/YYYY''
     \<or> name = ''Origin Time - Time (UTC) - HH:MM:ss''
     \<or> name = ''Origin Time - Millisecond (UTC)'' \<or> name = ''Brune Magnitude''
     \<or> name = ''Stage'' \<or> name = ''Origin DateTime''"
proof (rule ccontr)
  assume "\<not> ?thesis"
  then have "column name df = Inl (KeyError name)"
    unfolding column_def by simp
  with assms show False by simp
qed

lemma size_encoding_names:
  "size_encoding lib ''Brune Magnitude'' df
     = Inr (Float64S (map (\<lambda>r. float64_mul lib \<bar>Brune_Magnitude r\<bar> 100) df))"
  "size_encoding lib ''Easting (ft)'' df
     = Inr (Float64S (map (\<lambda>r. float64_mul lib \<bar>Easting_ft r\<bar> 100) df))"
  "size_encoding lib ''Northing (ft)'' df
     = Inr (Float64S (map (\<lambda>r. float64_mul lib \<bar>Northing_ft r\<bar> 100) df))"
  "size_encoding lib ''Depth TVDSS (ft)'' df
     = Inr (Float64S (map (\<lambda>r. float64_mul lib \<bar>Depth_TVDSS_ft r\<bar> 100) df))"
  "size_encoding lib ''Stage'' df
     = Inr (Int64S (map (\<lambda>r. wrap64 (wrap64 \<bar>sint (Stage r)\<bar> * 100)) df))"
  "size_encoding lib ''Origin Time - Millisecond (UTC)'' df
     = Inr (Int64S (map (\<lambda>r. wrap64 (wrap64 \<bar>sint (Origin_Millisecond r)\<bar> * 100)) df))"
  "size_encoding lib ''File Name'' df = (if df = [] then Inr (ObjectS []) else Inl TypeError)"
  "size_encoding lib ''Origin Time - Date (UTC) - MM/DD/YYYY'' df
     = (if df = [] then Inr (ObjectS []) else Inl TypeError)"
  "size_encoding lib ''Origin Time - Time (UTC) - HH:MM:ss'' df
     = (if df = [] then Inr (ObjectS []) else Inl TypeError)"
  "size_encoding lib ''Origin DateTime'' df = Inl TypeError"
  by (simp_all add: size_encoding_def column_names series_abs_def series_mul_def o_def)

lemma size_encoding_Inr_name:
  assumes "size_encoding lib name df = Inr sizes"
  shows "(name = ''Easting (ft)'' \<or> name = ''Northing (ft)'' \<or> name = ''Depth TVDSS (ft)''
      \<or> name = ''Origin Time - Millisecond (UTC)'' \<or> name = ''Brune Magnitude''
      \<or> name = ''Stage'')
    \<or> (name = ''File Name'' \<or> name = ''Origin Time - Date (UTC) - MM/DD/YYYY''
         \<or> name = ''Origin Time - Time (UTC) - HH:MM:ss'') \<and> df = [] \<and> sizes = ObjectS []"
proof -
  from assms obtain s where s: "column name df = Inr s"
    by (auto simp: size_encoding_def split: sum.splits)
  have str: "df = [] \<and> sizes = ObjectS []"
    if "size_encoding lib name df = (if df = [] then Inr (ObjectS []) else Inl TypeError)"
    using that assms by (simp split: if_splits)
  have dt: "size_encoding lib name df \<noteq> Inl TypeError"
    using assms by simp
  from column_Inr_name [OF s] show ?thesis
  proof (elim disjE)
    assume n: "name = ''File Name''"
    from str [unfolded n, OF size_encoding_names(7)] show ?thesis
      by (simp add: n)
  next
    assume n: "name = ''Origin Time - Date (UTC) - MM/DD/YYYY''"
    from str [unfolded n, OF size_encoding_names(8)] show ?thesis
      by (simp add: n)
  next
    assume n: "name = ''Origin Time - Time (UTC) - HH:MM:ss''"
    from str [unfolded n, OF size_encoding_names(9)] show ?thesis
      by (simp add: n)
  next
    assume n: "name = ''Origin DateTime''"
    from dt [unfolded n] size_encoding_names(10) show ?thesis by simp
  qed simp_all
qed

lemma wrapped_product:
  assumes "\<bar>n\<bar> * 100 < 2 ^ 63"
  shows "wrap64 (wrap64 \<bar>n\<bar> * 100) = \<bar>n\<bar> * 100"
proof -
  from assms have "\<bar>n\<bar> < 2 ^ 63" by simp
  then have "wrap64 \<bar>n\<bar> = \<bar>n\<bar>"
    by (intro wrap64_id) simp_all
  moreover have "wrap64 (\<bar>n\<bar> * 100) = \<bar>n\<bar> * 100"
    using assms by (intro wrap64_id) simp_all
  ultimately show ?thesis by simp
qed

subsection \<open>Marker sizes\<close>

text \<open>
  C2, as amended. When \<open>create_plot\<close> returns a trace, plotly has accepted it, its
  points are the rows of the filtered table, in the order of that table, the size
  attribute is one of the six
  numeric columns (or a column of strings, with no row left), and the marker size of each
  row is the absolute value of its size attribute times 100 in the arithmetic of the
  column: for each of the four float columns the float product of \<open>\<bar>v\<bar>\<close> and 100, which
  is \<open>\<bar>v\<bar> * 100\<close> where that product is not rounded; for each of the two integer
  columns the product in 64 bits, which wraps around, and is \<open>\<bar>v\<bar> * 100\<close> where this
  is less than \<open>2^63\<close>. With the default size attribute the sizes are those of
  \<open>Brune Magnitude\<close>.
\<close>

theorem marker_size_scaled:
  assumes "MSPlot_create_plot lib self = (self', Inr t)"
  shows "\<exists>d df. data self = Some d
    \<and> window_filter lib (plot_start_time self') (plot_end_time self')
         (sort_values lib (take 101 d)) = Inr df
    \<and> scatter_x t = map Easting_ft df
    \<and> scatter_y t = map Northing_ft df
    \<and> scatter_z t = map Depth_TVDSS_ft df
    \<and> plotly_accepts lib t
    \<and> size_encoding lib (size_by self) df = Inr (marker_size t)
    \<and> ((size_by self = ''Easting (ft)'' \<or> size_by self = ''Northing (ft)''
          \<or> size_by self = ''Depth TVDSS (ft)''
          \<or> size_by self = ''Origin Time - Millisecond (UTC)''
          \<or> size_by self = ''Brune Magnitude'' \<or> size_by self = ''Stage'')
       \<or> (size_by self = ''File Name''
            \<or> size_by self = ''Origin Time - Date (UTC) - MM/DD/YYYY''
            \<or> size_by self = ''Origin Time - Time (UTC) - HH:MM:ss'')
          \<and> df = [] \<and> marker_size t = ObjectS [])
    \<and> (size_by self = ''Brune Magnitude'' \<longrightarrow>
          marker_size t = Float64S (map (\<lambda>r. float64_mul lib \<bar>Brune_Magnitude r\<bar> 100) df))
    \<and> (size_by self = ''Easting (ft)'' \<longrightarrow>
          marker_size t = Float64S (map (\<lambda>r. float64_mul lib \<bar>Easting_ft r\<bar> 100) df))
    \<and> (size_by self = ''Northing (ft)'' \<longrightarrow>
          marker_size t = Float64S (map (\<lambda>r. float64_mul lib \<bar>Northing_ft r\<bar> 100) df))
    \<and> (size_by self = ''Depth TVDSS (ft)'' \<longrightarrow>
          marker_size t = Float64S (map (\<lambda>r. float64_mul lib \<bar>Depth_TVDSS_ft r\<bar> 100) df))
    \<and> (size_by self = ''Stage'' \<longrightarrow>
          marker_size t = Int64S (map (\<lambda>r. wrap64 (wrap64 \<bar>sint (Stage r)\<bar> * 100)) df))
    \<and> (size_by self = ''Origin Time - Millisecond (UTC)'' \<longrightarrow>
          marker_size t
            = Int64S (map (\<lambda>r. wrap64 (wrap64 \<bar>sint (Origin_Millisecond r)\<bar> * 100)) df))
    \<and> (size_by self = ''Brune Magnitude''
         \<and> (\<forall>r \<in> set df. float64_mul lib \<bar>Brune_Magnitude r\<bar> 100 = \<bar>Brune_Magnitude r\<bar> * 100)
         \<longrightarrow> marker_size t = Float64S (map (\<lambda>r. \<bar>Brune_Magnitude r\<bar> * 100) df))
    \<and> (size_by self = ''Stage'' \<and> (\<forall>r \<in> set df. \<bar>sint (Stage r)\<bar> * 100 < 2 ^ 63) \<longrightarrow>
          marker_size t = Int64S (map (\<lambda>r. \<bar>sint (Stage r)\<bar> * 100) df))
    \<and> (size_by self = ''Origin Time - Millisecond (UTC)''
         \<and> (\<forall>r \<in> set df. \<bar>sint (Origin_Millisecond r)\<bar> * 100 < 2 ^ 63) \<longrightarrow>
          marker_size t = Int64S (map (\<lambda>r. \<bar>sint (Origin_Millisecond r)\<bar> * 100) df))"
proof -
  from create_plot_Inr [OF assms] obtain d df where
    d: "data self = Some d"
    and w: "window_filter lib (plot_start_time self') (plot_end_time self')
         (sort_values lib (take 101 d)) = Inr df"
    and m: "Scatter3d_markers lib self df = Inr t"
    by blast
  from Scatter3d_markers_Inr [OF m] obtain sizes where
    sz: "size_encoding lib (size_by self) df = Inr sizes"
    and acc: "plotly_accepts lib t"
    and t: "scatter_x t = map Easting_ft df" "scatter_y t = map Northing_ft df"
      "scatter_z t = map Depth_TVDSS_ft df" "marker_size t = sizes"
    by auto
  note name = size_encoding_Inr_name [OF sz]
  have brune: "sizes = Float64S (map (\<lambda>r. float64_mul lib \<bar>Brune_Magnitude r\<bar> 100) df)"
    if "size_by self = ''Brune Magnitude''"
    using sz that by (simp add: size_encoding_names)
  have easting: "sizes = Float64S (map (\<lambda>r. float64_mul lib \<bar>Easting_ft r\<bar> 100) df)"
    if "size_by self = ''Easting (ft)''"
    using sz that by (simp add: size_encoding_names)
  have northing: "sizes = Float64S (map (\<lambda>r. float64_mul lib \<bar>Northing_ft r\<bar> 100) df)"
    if "size_by self = ''Northing (ft)''"
    using sz that by (simp add: size_encoding_names)
  have depth: "sizes = Float64S (map (\<lambda>r. float64_mul lib \<bar>Depth_TVDSS_ft r\<bar> 100) df)"
    if "size_by self = ''Depth TVDSS (ft)''"
    using sz that by (simp add: size_encoding_names)
  have stage: "sizes = Int64S (map (\<lambda>r. wrap64 (wrap64 \<bar>sint (Stage r)\<bar> * 100)) df)"
    if "size_by self = ''Stage''"
    using sz that by (simp add: size_encoding_names)
  have ms: "sizes = Int64S (map (\<lambda>r. wrap64 (wrap64 \<bar>sint (Origin_Millisecond r)\<bar> * 100)) df)"
    if "size_by self = ''Origin Time - Millisecond (UTC)''"
    using sz that by (simp add: size_encoding_names)
  have brune_exact: "sizes = Float64S (map (\<lambda>r. \<bar>Brune_Magnitude r\<bar> * 100) df)"
    if "size_by self = ''Brune Magnitude''"
      and "\<forall>r \<in> set df. float64_mul lib \<bar>Brune_Magnitude r\<bar> 100 = \<bar>Brune_Magnitude r\<bar> * 100"
    using brune [OF that(1)] that(2) by simp
  have stage_exact: "sizes = Int64S (map (\<lambda>r. \<bar>sint (Stage r)\<bar> * 100) df)"
    if "size_by self = ''Stage''" and "\<forall>r \<in> set df. \<bar>sint (Stage r)\<bar> * 100 < 2 ^ 63"
    using stage [OF that(1)] that(2) by (simp add: wrapped_product)
  have ms_exact: "sizes = Int64S (map (\<lambda>r. \<bar>sint (Origin_Millisecond r)\<bar> * 100) df)"
    if "size_by self = ''Origin Time - Millisecond (UTC)''"
      and "\<forall>r \<in> set df. \<bar>sint (Origin_Millisecond r)\<bar> * 100 < 2 ^ 63"
    using ms [OF that(1)] that(2) by (simp add: wrapped_product)
  have sizes: "marker_size t = sizes" by (rule t(4))
  show ?thesis
    apply (rule exI [of _ d])
    apply (rule exI [of _ df])
    unfolding sizes
    apply (intro conjI)
    apply (rule d)
    apply (rule w)
    apply (rule t(1))
    apply (rule t(2))
    apply (rule t(3))
    apply (rule acc)
    apply (rule sz)
    apply (rule name)
    apply (rule impI, erule brune)
    apply (rule impI, erule easting)
    apply (rule impI, erule northing)
    apply (rule impI, erule depth)
    apply (rule impI, erule stage)
    apply (rule impI, erule ms)
    apply (rule impI, erule conjE, erule (1) brune_exact)
    apply (rule impI, erule conjE, erule (1) stage_exact)
    apply (rule impI, erule conjE, erule (1) ms_exact)
    done
qed

subsection \<open>Marker colours and the colour range\<close>

lemma series_range:
  assumes "scalars col \<noteq> []"
  shows "\<exists>m M. series_min col = Some m \<and> series_max col = Some M
    \<and> m \<in> set (scalars col) \<and> M \<in> set (scalars col)
    \<and> (\<forall>c \<in> set (scalars col). scalar_le m c \<and> scalar_le c M)"
proof (cases col)
  case (ObjectS xs)
  with assms have "xs \<noteq> []" by simp
  then have "Min (set xs) \<in> set xs" "Max (set xs) \<in> set xs" by simp_all
  with ObjectS \<open>xs \<noteq> []\<close> show ?thesis
    by (simp add: series_min_def series_max_def list_min_eq list_max_eq image_iff)
next
  case (Int64S xs)
  with assms have "xs \<noteq> []" by simp
  then have "Min (set xs) \<in> set xs" "Max (set xs) \<in> set xs" by simp_all
  with Int64S \<open>xs \<noteq> []\<close> show ?thesis
    by (simp add: series_min_def series_max_def list_min_eq list_max_eq image_iff)
next
  case (Float64S xs)
  with assms have "xs \<noteq> []" by simp
  then have "Min (set xs) \<in> set xs" "Max (set xs) \<in> set xs" by simp_all
  with Float64S \<open>xs \<noteq> []\<close> show ?thesis
    by (simp add: series_min_def series_max_def list_min_eq list_max_eq image_iff)
next
  case (DatetimeS ts)
  define xs where "xs = valid_times ts"
  with DatetimeS assms have "xs \<noteq> []" by simp
  then have "Min (set xs) \<in> set xs" "Max (set xs) \<in> set xs" by simp_all
  with DatetimeS \<open>xs \<noteq> []\<close> show ?thesis
    unfolding xs_def
    by (simp add: series_min_def series_max_def list_min_eq list_max_eq image_iff)
qed

lemma series_range_empty:
  assumes "scalars col = []"
  shows "series_min col = None \<and> series_max col = None"
  using assms by (cases col) (simp_all add: series_min_def series_max_def list_min_eq list_max_eq)

lemma series_constant:
  assumes "scalars col \<noteq> []" and "\<forall>c \<in> set (scalars col). c = v"
  shows "series_min col = Some v" and "series_max col = Some v"
    and "scalars col = replicate (length (scalars col)) v"
proof -
  from series_range [OF assms(1)] assms(2)
  show "series_min col = Some v" "series_max col = Some v" by auto
  from assms(2) show "scalars col = replicate (length (scalars col)) v"
    by (simp add: replicate_length_same)
qed

lemma numbers_length: "numbers col \<Longrightarrow> column name df = Inr col \<Longrightarrow> length (scalars col) = length df"
  by (cases col) (auto simp: column_def split: if_splits)

lemma numbers_number: "numbers col \<Longrightarrow> v \<in> set (scalars col) \<Longrightarrow> number (Some v)"
  by (cases col) auto

lemma column_empty: "column name [] = Inr col \<Longrightarrow> scalars col = []"
  by (auto simp: column_def split: if_splits)

text \<open>
  C3. When \<open>create_plot\<close> returns a trace, plotly has accepted it, the colour
  attribute is one of the ten columns, the colour of each row of the filtered table is the value of its colour
  attribute as it stands, and \<open>cmin\<close> and \<open>cmax\<close> are the least and the greatest of
  these values over the filtered table, not over the loaded one; of no values they are
  undefined. Where every row has the same value \<open>v\<close>, both \<open>cmin\<close> and \<open>cmax\<close> are \<open>v\<close>
  and every row has the colour value \<open>v\<close>.

  Computing the encoding cannot fail: of a column that exists it is there, whatever the
  values. And the trace of a constant column is produced: with a table loaded, the
  window filter and the sizes computed, the sizes numbers that are not negative, the
  colour column one of numbers that all are \<open>v\<close>, and the colour scale the default one,
  \<open>create_plot\<close> returns a trace, with \<open>cmin\<close> and \<open>cmax\<close> both \<open>v\<close> and every colour
  \<open>v\<close>; here plotly is taken to accept an encoding in numbers.
\<close>

theorem marker_color_range:
  "(\<forall>self' t. MSPlot_create_plot lib self = (self', Inr t) \<longrightarrow>
      (\<exists>d df col. data self = Some d
        \<and> window_filter lib (plot_start_time self') (plot_end_time self')
             (sort_values lib (take 101 d)) = Inr df
        \<and> column (color_by self) df = Inr col
        \<and> plotly_accepts lib t
        \<and> marker_color t = col
        \<and> marker_cmin t = series_min col
        \<and> marker_cmax t = series_max col
        \<and> (color_by self = ''File Name'' \<or> color_by self = ''Easting (ft)''
            \<or> color_by self = ''Northing (ft)'' \<or> color_by self = ''Depth TVDSS (ft)''
            \<or> color_by self = ''Origin Time - Date (UTC) - MM/DD/YYYY''
            \<or> color_by self = ''Origin Time - Time (UTC) - HH:MM:ss''
            \<or> color_by self = ''Origin Time - Millisecond (UTC)''
            \<or> color_by self = ''Brune Magnitude'' \<or> color_by self = ''Stage''
            \<or> color_by self = ''Origin DateTime'')
        \<and> (color_by self = ''File Name'' \<longrightarrow> marker_color t = ObjectS (map File_Name df))
        \<and> (color_by self = ''Easting (ft)'' \<longrightarrow> marker_color t = Float64S (map Easting_ft df))
        \<and> (color_by self = ''Northing (ft)'' \<longrightarrow>
              marker_color t = Float64S (map Northing_ft df))
        \<and> (color_by self = ''Depth TVDSS (ft)'' \<longrightarrow>
              marker_color t = Float64S (map Depth_TVDSS_ft df))
        \<and> (color_by self = ''Origin Time - Date (UTC) - MM/DD/YYYY'' \<longrightarrow>
              marker_color t = ObjectS (map Origin_Date_MDY df))
        \<and> (color_by self = ''Origin Time - Time (UTC) - HH:MM:ss'' \<longrightarrow>
              marker_color t = ObjectS (map Origin_Time_HMS df))
        \<and> (color_by self = ''Origin Time - Millisecond (UTC)'' \<longrightarrow>
              marker_color t = Int64S (map (\<lambda>r. sint (Origin_Millisecond r)) df))
        \<and> (color_by self = ''Brune Magnitude'' \<longrightarrow>
              marker_color t = Float64S (map Brune_Magnitude df))
        \<and> (color_by self = ''Stage'' \<longrightarrow>
              marker_color t = Int64S (map (\<lambda>r. sint (Stage r)) df))
        \<and> (color_by self = ''Origin DateTime'' \<longrightarrow>
              marker_color t = DatetimeS (map Origin_DateTime df))
        \<and> (df = [] \<longrightarrow> marker_cmin t = None \<and> marker_cmax t = None)
        \<and> (scalars col = [] \<longrightarrow> marker_cmin t = None \<and> marker_cmax t = None)
        \<and> (scalars col \<noteq> [] \<longrightarrow>
              (\<exists>m M. marker_cmin t = Some m \<and> marker_cmax t = Some M
                 \<and> m \<in> set (scalars col) \<and> M \<in> set (scalars col)
                 \<and> (\<forall>c \<in> set (scalars col). scalar_le m c \<and> scalar_le c M)))
        \<and> (\<forall>v. scalars col \<noteq> [] \<and> (\<forall>c \<in> set (scalars col). c = v) \<longrightarrow>
              marker_cmin t = Some v \<and> marker_cmax t = Some v
              \<and> scalars (marker_color t) = replicate (length (scalars col)) v)))
   \<and> (\<forall>df col. column (color_by self) df = Inr col \<longrightarrow>
         color_encoding (color_by self) df = Inr (col, series_min col, series_max col))
   \<and> (\<forall>d df sizes col v.
         data self = Some d
         \<and> window_filter lib
              (plot_start_time (default_bounds (sort_values lib (take 101 d)) self))
              (plot_end_time (default_bounds (sort_values lib (take 101 d)) self))
              (sort_values lib (take 101 d)) = Inr df
         \<and> size_encoding lib (size_by self) df = Inr sizes \<and> nonnegative_numbers sizes
         \<and> column (color_by self) df = Inr col \<and> numbers col
         \<and> color_scale self = ''Viridis''
         \<and> df \<noteq> [] \<and> (\<forall>c \<in> set (scalars col). c = v)
         \<and> (\<forall>a. numeric_encoding a \<longrightarrow> plotly_accepts lib a)
         \<longrightarrow> (\<exists>t. MSPlot_create_plot lib self
                      = (default_bounds (sort_values lib (take 101 d)) self, Inr t)
                \<and> marker_color t = col
                \<and> marker_cmin t = Some v \<and> marker_cmax t = Some v
                \<and> scalars (marker_color t) = replicate (length df) v))"
proof (intro conjI allI impI)
  fix self' t
  assume ok: "MSPlot_create_plot lib self = (self', Inr t)"
  from create_plot_Inr [OF ok] obtain d df where
    d: "data self = Some d"
    and w: "window_filter lib (plot_start_time self') (plot_end_time self')
         (sort_values lib (take 101 d)) = Inr df"
    and m: "Scatter3d_markers lib self df = Inr t"
    by blast
  from Scatter3d_markers_Inr [OF m] obtain col where
    col: "column (color_by self) df = Inr col"
    and acc: "plotly_accepts lib t"
    and t: "marker_color t = col" "marker_cmin t = series_min col"
      "marker_cmax t = series_max col"
    by auto
  note name = column_Inr_name [OF col]
  have pin: "col = c" if "column (color_by self) df = Inr c" for c
    using col that by simp
  have empty: "marker_cmin t = None \<and> marker_cmax t = None" if "scalars col = []"
    using series_range_empty [OF that] t by simp
  have empty': "marker_cmin t = None \<and> marker_cmax t = None" if "df = []"
    using col that empty column_empty by blast
  have range: "\<exists>m M. marker_cmin t = Some m \<and> marker_cmax t = Some M
             \<and> m \<in> set (scalars col) \<and> M \<in> set (scalars col)
             \<and> (\<forall>c \<in> set (scalars col). scalar_le m c \<and> scalar_le c M)"
    if "scalars col \<noteq> []"
    using series_range [OF that] t by simp
  have const: "marker_cmin t = Some v \<and> marker_cmax t = Some v
      \<and> scalars (marker_color t) = replicate (length (scalars col)) v"
    if "scalars col \<noteq> [] \<and> (\<forall>c \<in> set (scalars col). c = v)" for v
  proof -
    from that have a: "scalars col \<noteq> []" and b: "\<forall>c \<in> set (scalars col). c = v" by simp_all
    from series_constant [OF a b] t show ?thesis by simp
  qed
  show "\<exists>d df col. data self = Some d
        \<and> window_filter lib (plot_start_time self') (plot_end_time self')
             (sort_values lib (take 101 d)) = Inr df
        \<and> column (color_by self) df = Inr col
        \<and> plotly_accepts lib t
        \<and> marker_color t = col
        \<and> marker_cmin t = series_min col
        \<and> marker_cmax t = series_max col
        \<and> (color_by self = ''File Name'' \<or> color_by self = ''Easting (ft)''
            \<or> color_by self = ''Northing (ft)'' \<or> color_by self = ''Depth TVDSS (ft)''
            \<or> color_by self = ''Origin Time - Date (UTC) - MM/DD/YYYY''
            \<or> color_by self = ''Origin Time - Time (UTC) - HH:MM:ss''
            \<or> color_by self = ''Origin Time - Millisecond (UTC)''
            \<or> color_by self = ''Brune Magnitude'' \<or> color_by self = ''Stage''
            \<or> color_by self = ''Origin DateTime'')
        \<and> (color_by self = ''File Name'' \<longrightarrow> marker_color t = ObjectS (map File_Name df))
        \<and> (color_by self = ''Easting (ft)'' \<longrightarrow> marker_color t = Float64S (map Easting_ft df))
        \<and> (color_by self = ''Northing (ft)'' \<longrightarrow>
              marker_color t = Float64S (map Northing_ft df))
        \<and> (color_by self = ''Depth TVDSS (ft)'' \<longrightarrow>
              marker_color t = Float64S (map Depth_TVDSS_ft df))
        \<and> (color_by self = ''Origin Time - Date (UTC) - MM/DD/YYYY'' \<longrightarrow>
              marker_color t = ObjectS (map Origin_Date_MDY df))
        \<and> (color_by self = ''Origin Time - Time (UTC) - HH:MM:ss'' \<longrightarrow>
              marker_color t = ObjectS (map Origin_Time_HMS df))
        \<and> (color_by self = ''Origin Time - Millisecond (UTC)'' \<longrightarrow>
              marker_color t = Int64S (map (\<lambda>r. sint (Origin_Millisecond r)) df))
        \<and> (color_by self = ''Brune Magnitude'' \<longrightarrow>
              marker_color t = Float64S (map Brune_Magnitude df))
        \<and> (color_by self = ''Stage'' \<longrightarrow>
              marker_color t = Int64S (map (\<lambda>r. sint (Stage r)) df))
        \<and> (color_by self = ''Origin DateTime'' \<longrightarrow>
              marker_color t = DatetimeS (map Origin_DateTime df))
        \<and> (df = [] \<longrightarrow> marker_cmin t = None \<and> marker_cmax t = None)
        \<and> (scalars col = [] \<longrightarrow> marker_cmin t = None \<and> marker_cmax t = None)
        \<and> (scalars col \<noteq> [] \<longrightarrow>
              (\<exists>m M. marker_cmin t = Some m \<and> marker_cmax t = Some M
                 \<and> m \<in> set (scalars col) \<and> M \<in> set (scalars col)
                 \<and> (\<forall>c \<in> set (scalars col). scalar_le m c \<and> scalar_le c M)))
        \<and> (\<forall>v. scalars col \<noteq> [] \<and> (\<forall>c \<in> set (scalars col). c = v) \<longrightarrow>
              marker_cmin t = Some v \<and> marker_cmax t = Some v
              \<and> scalars (marker_color t) = replicate (length (scalars col)) v)"
    apply (rule exI [of _ d])
    apply (rule exI [of _ df])
    apply (rule exI [of _ col])
    unfolding t(1)
    apply (intro conjI)
    apply (rule d)
    apply (rule w)
    apply (rule col)
    apply (rule acc)
    apply (rule refl)
    apply (rule t(2))
    apply (rule t(3))
    apply (rule name)
    apply (rule impI, rule pin, simp only: column_names)
    apply (rule impI, rule pin, simp only: column_names)
    apply (rule impI, rule pin, simp only: column_names)
    apply (rule impI, rule pin, simp only: column_names)
    apply (rule impI, rule pin, simp only: column_names)
    apply (rule impI, rule pin, simp only: column_names)
    apply (rule impI, rule pin, simp only: column_names)
    apply (rule impI, rule pin, simp only: column_names)
    apply (rule impI, rule pin, simp only: column_names)
    apply (rule impI, rule pin, simp only: column_names)
    apply (rule impI, erule empty')
    apply (rule impI, erule empty)
    apply (rule impI, erule range)
    apply (rule allI, rule impI, erule const [unfolded t(1)])
    done
next
  fix df col
  assume "column (color_by self) df = Inr col"
  then show "color_encoding (color_by self) df = Inr (col, series_min col, series_max col)"
    by (simp add: color_encoding_def)
next
  fix d df sizes col v
  let ?s1 = "default_bounds (sort_values lib (take 101 d)) self"
  assume h: "data self = Some d
         \<and> window_filter lib (plot_start_time ?s1) (plot_end_time ?s1)
              (sort_values lib (take 101 d)) = Inr df
         \<and> size_encoding lib (size_by self) df = Inr sizes \<and> nonnegative_numbers sizes
         \<and> column (color_by self) df = Inr col \<and> numbers col
         \<and> color_scale self = ''Viridis''
         \<and> df \<noteq> [] \<and> (\<forall>c \<in> set (scalars col). c = v)
         \<and> (\<forall>a. numeric_encoding a \<longrightarrow> plotly_accepts lib a)"
  then have d: "data self = Some d"
    and w: "window_filter lib (plot_start_time ?s1) (plot_end_time ?s1)
              (sort_values lib (take 101 d)) = Inr df"
    and sz: "size_encoding lib (size_by self) df = Inr sizes"
    and nn: "nonnegative_numbers sizes"
    and col: "column (color_by self) df = Inr col" and num: "numbers col"
    and scale: "color_scale self = ''Viridis''"
    and ne: "df \<noteq> []" and same: "\<forall>c \<in> set (scalars col). c = v"
    and plotly: "\<And>a. numeric_encoding a \<Longrightarrow> plotly_accepts lib a"
    by simp_all
  define t where "t = \<lparr>scatter_x = map Easting_ft df,
               scatter_y = map Northing_ft df,
               scatter_z = map Depth_TVDSS_ft df,
               hover_text = map (hover lib) df,
               scatter_mode = ''markers'',
               marker_sizemode = ''diameter'',
               marker_sizeref = 25,
               marker_size = sizes,
               marker_color = col,
               marker_colorscale = color_scale self,
               marker_cmin = series_min col,
               marker_cmax = series_max col,
               colorbar_title = color_by self\<rparr>"
  from numbers_length [OF num col] have len: "length (scalars col) = length df" .
  with ne have ne': "scalars col \<noteq> []" by auto
  note c = series_constant [OF ne' same]
  from ne' same have "v \<in> set (scalars col)"
    by (cases "scalars col") auto
  from numbers_number [OF num this] have nv: "number (Some v)" .
  have "numeric_encoding t"
    unfolding numeric_encoding_def t_def using nn num nv c(1,2) scale by simp
  from plotly [OF this] have acc: "plotly_accepts lib t" .
  from Scatter3d_markers_accepted [OF sz col t_def acc]
  have m: "Scatter3d_markers lib self df = Inr t" .
  have "MSPlot_create_plot lib self = (?s1, Inr t)"
    unfolding create_plot_Some [OF d] w using m by simp
  moreover have "marker_color t = col" "marker_cmin t = Some v" "marker_cmax t = Some v"
    by (simp_all add: t_def c)
  moreover have "scalars (marker_color t) = replicate (length df) v"
    using c(3) len by (simp add: t_def)
  ultimately show "\<exists>t. MSPlot_create_plot lib self = (?s1, Inr t)
                \<and> marker_color t = col
                \<and> marker_cmin t = Some v \<and> marker_cmax t = Some v
                \<and> scalars (marker_color t) = replicate (length df) v"
    by blast
qed

subsection \<open>The window\<close>

text \<open>
  C4. With a lower and an upper bound that are points in time (given as such, or as
  strings that parse), the window filter returns, without raising, exactly the rows whose
  timestamp lies between the two, both ends included, in the order they had; a row whose
  timestamp is not a time lies in no window. With the lower bound after the upper one
  the result is the empty table, again without raising; bounds outside the data give the
  empty or the whole table by the same formula. \<open>create_plot\<close> with both bounds set
  builds its trace from that table.
\<close>

theorem window_filter_inclusive:
  assumes "comparand lib lower = Inr (Ts lo)" and "comparand lib upper = Inr (Ts hi)"
  shows "window_filter lib lower upper df = Inr (filter (in_window lo hi) df)
    \<and> (hi < lo \<longrightarrow> window_filter lib lower upper df = Inr [])
    \<and> (data self = Some d \<and> plot_start_time self = lower \<and> plot_end_time self = upper \<longrightarrow>
          MSPlot_create_plot lib self
            = (self, Scatter3d_markers lib self
                 (filter (in_window lo hi) (sort_values lib (take 101 d)))))"
proof -
  have p: "(ge_bound (Origin_DateTime r) (Ts lo) \<and> le_bound (Origin_DateTime r) (Ts hi))
      = in_window lo hi r" for r
    by (simp add: ge_bound_def le_bound_def in_window_def split: timestamp.splits)
  have w: "window_filter lib lower upper f = Inr (filter (in_window lo hi) f)" for f
    using assms by (simp add: window_filter_def p)
  have "filter (in_window lo hi) df = []" if "hi < lo"
    using that by (auto simp: filter_empty_conv in_window_def split: timestamp.splits)
  moreover have "MSPlot_create_plot lib self
            = (self, Scatter3d_markers lib self
                 (filter (in_window lo hi) (sort_values lib (take 101 d))))"
    if "data self = Some d" and "plot_start_time self = lower" and "plot_end_time self = upper"
  proof -
    from assms that obtain a b where "plot_start_time self = Some a" "plot_end_time self = Some b"
      by (auto simp: comparand_def split: option.splits)
    then have "default_bounds (sort_values lib (take 101 d)) self = self"
      by (simp add: default_bounds_def)
    with that w show ?thesis
      by (simp add: create_plot_Some [OF that(1)])
  qed
  ultimately show ?thesis using w by simp
qed

subsection \<open>The stored bounds\<close>

lemma valid_times_set:
  "set (valid_times ts) = (\<Union>t \<in> set ts. case t of Ts a \<Rightarrow> {a} | NaT \<Rightarrow> {})"
  by (induction ts rule: valid_times.induct) simp_all

lemma valid_times_of: "set (valid_times (map Origin_DateTime df)) = times_of df"
  by (simp add: valid_times_set times_of_def)

lemma valid_times_Nil: "valid_times (map Origin_DateTime df) = [] \<longleftrightarrow> times_of df = {}"
  using valid_times_of [of df] set_empty by metis

lemma datetime_min_eq:
  "datetime_min df = (if times_of df = {} then NaT else Ts (Min (times_of df)))"
  by (simp add: datetime_min_def list_min_eq valid_times_Nil valid_times_of)

lemma datetime_max_eq:
  "datetime_max df = (if times_of df = {} then NaT else Ts (Max (times_of df)))"
  by (simp add: datetime_max_def list_max_eq valid_times_Nil valid_times_of)

lemma create_plot_bounds:
  assumes "data self = Some d"
  shows "plot_start_time (fst (MSPlot_create_plot lib self))
           = (case plot_start_time self of
                None \<Rightarrow> Some (At (datetime_min (sort_values lib (take 101 d))))
              | Some b \<Rightarrow> Some b)"
    and "plot_end_time (fst (MSPlot_create_plot lib self))
           = (case plot_end_time self of
                None \<Rightarrow> Some (At (datetime_max (sort_values lib (take 101 d))))
              | Some b \<Rightarrow> Some b)"
    and "data (fst (MSPlot_create_plot lib self)) = Some d"
  using assms by (simp_all add: create_plot_Some default_bounds_simps)

text \<open>
  C7. With a table loaded, \<open>create_plot\<close> leaves in \<open>plot_start_time\<close>, where it was
  unset, the least timestamp of the rows it considers, the first 101 of the table, and in
  \<open>plot_end_time\<close>, where it was unset, the greatest (\<open>NaT\<close> if no row has a timestamp
  that is a time); a bound that was set is kept. The stored bounds outlast the call: a
  later \<open>create_plot\<close> on the instance, whatever table it then holds, finds them set and
  leaves them as they are. The sorting is only required to keep the rows.
\<close>

theorem create_plot_stores_default_bounds:
  assumes "data self = Some d" and "\<And>xs. set (sort_values lib xs) = set xs"
  shows "(plot_start_time self = None \<longrightarrow>
            plot_start_time (fst (MSPlot_create_plot lib self))
              = Some (At (if times_of (take 101 d) = {} then NaT
                          else Ts (Min (times_of (take 101 d))))))
    \<and> (plot_end_time self = None \<longrightarrow>
            plot_end_time (fst (MSPlot_create_plot lib self))
              = Some (At (if times_of (take 101 d) = {} then NaT
                          else Ts (Max (times_of (take 101 d))))))
    \<and> (plot_start_time self \<noteq> None \<longrightarrow>
            plot_start_time (fst (MSPlot_create_plot lib self)) = plot_start_time self)
    \<and> (plot_end_time self \<noteq> None \<longrightarrow>
            plot_end_time (fst (MSPlot_create_plot lib self)) = plot_end_time self)
    \<and> plot_start_time (fst (MSPlot_create_plot lib'
          ((fst (MSPlot_create_plot lib self))\<lparr>data := Some d'\<rparr>)))
        = plot_start_time (fst (MSPlot_create_plot lib self))
    \<and> plot_end_time (fst (MSPlot_create_plot lib'
          ((fst (MSPlot_create_plot lib self))\<lparr>data := Some d'\<rparr>)))
        = plot_end_time (fst (MSPlot_create_plot lib self))"
proof -
  let ?df = "sort_values lib (take 101 d)"
  let ?s1 = "fst (MSPlot_create_plot lib self)"
  from assms(2) have "set ?df = set (take 101 d)" by simp
  then have times: "times_of ?df = times_of (take 101 d)"
    by (simp add: times_of_def)
  have mn: "datetime_min ?df
      = (if times_of (take 101 d) = {} then NaT else Ts (Min (times_of (take 101 d))))"
    unfolding datetime_min_eq times ..
  have mx: "datetime_max ?df
      = (if times_of (take 101 d) = {} then NaT else Ts (Max (times_of (take 101 d))))"
    unfolding datetime_max_eq times ..
  note b = create_plot_bounds [OF assms(1), of lib]
  have some: "plot_start_time ?s1 \<noteq> None" "plot_end_time ?s1 \<noteq> None"
    by (simp_all add: b split: option.splits)
  have d2: "data (?s1\<lparr>data := Some d'\<rparr>) = Some d'" by simp
  have again: "plot_start_time (fst (MSPlot_create_plot lib' (?s1\<lparr>data := Some d'\<rparr>)))
        = plot_start_time ?s1"
    "plot_end_time (fst (MSPlot_create_plot lib' (?s1\<lparr>data := Some d'\<rparr>)))
        = plot_end_time ?s1"
    using some by (auto simp: create_plot_bounds [OF d2] split: option.splits)
  have first: "plot_start_time self = None \<Longrightarrow> plot_start_time ?s1
      = Some (At (if times_of (take 101 d) = {} then NaT else Ts (Min (times_of (take 101 d)))))"
    "plot_end_time self = None \<Longrightarrow> plot_end_time ?s1
      = Some (At (if times_of (take 101 d) = {} then NaT else Ts (Max (times_of (take 101 d)))))"
    by (simp_all add: b mn mx)
  have keep: "plot_start_time self \<noteq> None \<Longrightarrow> plot_start_time ?s1 = plot_start_time self"
    "plot_end_time self \<noteq> None \<Longrightarrow> plot_end_time ?s1 = plot_end_time self"
    by (auto simp: b)
  from first keep again show ?thesis by blast
qed

subsection \<open>The development cap\<close>

text \<open>
  C8. \<open>create_plot\<close> works on the first 101 rows of the loaded table only
  (\<open>data.iloc[:101]\<close>): the trace or the exception it returns and the bounds it stores are
  those it gives for the table cut to its first 101 rows, so two tables that agree on
  these rows give the same result, and rows after the first 101 change nothing, however
  many there are.
\<close>

theorem create_plot_first_101_rows:
  "snd (MSPlot_create_plot lib (self\<lparr>data := Some d\<rparr>))
     = snd (MSPlot_create_plot lib (self\<lparr>data := Some (take 101 d)\<rparr>))
   \<and> plot_start_time (fst (MSPlot_create_plot lib (self\<lparr>data := Some d\<rparr>)))
     = plot_start_time (fst (MSPlot_create_plot lib (self\<lparr>data := Some (take 101 d)\<rparr>)))
   \<and> plot_end_time (fst (MSPlot_create_plot lib (self\<lparr>data := Some d\<rparr>)))
     = plot_end_time (fst (MSPlot_create_plot lib (self\<lparr>data := Some (take 101 d)\<rparr>)))
   \<and> (take 101 d = take 101 d' \<longrightarrow>
        snd (MSPlot_create_plot lib (self\<lparr>data := Some d\<rparr>))
          = snd (MSPlot_create_plot lib (self\<lparr>data := Some d'\<rparr>)))
   \<and> (101 \<le> length d \<longrightarrow>
        snd (MSPlot_create_plot lib (self\<lparr>data := Some (d @ more_rows)\<rparr>))
          = snd (MSPlot_create_plot lib (self\<lparr>data := Some d\<rparr>)))"
proof -
  have db: "plot_start_time (default_bounds df (self\<lparr>data := Some x\<rparr>))
        = plot_start_time (default_bounds df self)"
    "plot_end_time (default_bounds df (self\<lparr>data := Some x\<rparr>))
        = plot_end_time (default_bounds df self)" for df x
    by (simp_all add: default_bounds_simps)
  have sm: "Scatter3d_markers lib (self\<lparr>data := Some x\<rparr>) f = Scatter3d_markers lib self f"
    for x f
    by (simp add: Scatter3d_markers_def cong: sum.case_cong prod.case_cong)
  have r: "snd (MSPlot_create_plot lib (self\<lparr>data := Some x\<rparr>))
     = (case window_filter lib
               (plot_start_time (default_bounds (sort_values lib (take 101 x)) self))
               (plot_end_time (default_bounds (sort_values lib (take 101 x)) self))
               (sort_values lib (take 101 x)) of
          Inl e \<Rightarrow> Inl e
        | Inr f \<Rightarrow> Scatter3d_markers lib self f)" for x
    by (simp add: create_plot_Some [of "self\<lparr>data := Some x\<rparr>" x] db sm
        cong: sum.case_cong)
  have b: "plot_start_time (fst (MSPlot_create_plot lib (self\<lparr>data := Some x\<rparr>)))
      = plot_start_time (default_bounds (sort_values lib (take 101 x)) self)"
    "plot_end_time (fst (MSPlot_create_plot lib (self\<lparr>data := Some x\<rparr>)))
      = plot_end_time (default_bounds (sort_values lib (take 101 x)) self)" for x
    by (simp_all add: create_plot_Some [of "self\<lparr>data := Some x\<rparr>" x] db)
  have 1: "snd (MSPlot_create_plot lib (self\<lparr>data := Some d\<rparr>))
     = snd (MSPlot_create_plot lib (self\<lparr>data := Some (take 101 d)\<rparr>))"
    by (simp add: r)
  have 2: "snd (MSPlot_create_plot lib (self\<lparr>data := Some d\<rparr>))
          = snd (MSPlot_create_plot lib (self\<lparr>data := Some d'\<rparr>))" if "take 101 d = take 101 d'"
    using that by (simp add: r)
  have 3: "snd (MSPlot_create_plot lib (self\<lparr>data := Some (d @ more_rows)\<rparr>))
          = snd (MSPlot_create_plot lib (self\<lparr>data := Some d\<rparr>))" if "101 \<le> length d"
    using that by (simp add: r)
  from 1 2 3 show ?thesis by (simp add: b)
qed

subsection \<open>The example evaluated\<close>

lemma example_to_datetime_length:
  "\<forall>strs ts. to_datetime example_lib strs = Inr ts \<longrightarrow> length ts = length strs"
proof (intro allI impI)
  fix strs ts
  assume "to_datetime example_lib strs = Inr ts"
  then have "sequence (map (\<lambda>s.
      case example_datetime s of None \<Rightarrow> Inl ValueError | Some t \<Rightarrow> Inr (Ts t)) strs) = Inr ts"
    by (simp add: example_lib_def)
  from sequence_nth(1) [OF this] show "length ts = length strs" .
qed

lemma example_float64_mul:
  "float64_mul example_lib a b
     = (if a = 5404319552844595 / 4503599627370496 \<and> b = 100 then 120 else a * b)"
  by (simp add: example_lib_def)

lemma example_plotly_accepts:
  "plotly_accepts example_lib a
     = (nonnegative_numbers (marker_size a) \<and> numbers (marker_color a)
        \<and> marker_colorscale a = ''Viridis'')"
  by (simp add: example_lib_def)

lemma example_accepts_numeric: "numeric_encoding a \<Longrightarrow> plotly_accepts example_lib a"
  by (simp add: numeric_encoding_def example_plotly_accepts)

lemma example_load:
  "MSPlot_load_csv example_lib example_catalogs ''catalog.csv'' MSPlot_init
     = (MSPlot_init\<lparr>data := Some [ev3, ev1, ev2]\<rparr>, Inr True)"
  by (simp add: MSPlot_load_csv_def example_lib_def example_catalogs_def example_rows_def
      example_datetime_def pd_to_timedelta_ms_def to_timedelta_ms_def add_timedelta_def
      add_td_def in_int64_def parsed_row_def ev1_def ev2_def ev3_def MSPlot_init_def)

lemma example_load_least:
  "MSPlot_load_csv example_lib example_catalogs ''least.csv'' MSPlot_init
     = (MSPlot_init\<lparr>data := Some [ev_least]\<rparr>, Inr True)"
  by (simp add: MSPlot_load_csv_def example_lib_def example_catalogs_def example_row_least_def
      example_datetime_def pd_to_timedelta_ms_def to_timedelta_ms_def add_timedelta_def
      add_td_def in_int64_def parsed_row_def ev_least_def MSPlot_init_def)

lemma str_int_small: "str_int 1 = ''1''" "str_int 2 = ''2''"
  by (simp_all add: str_int_def str_nat.simps digit_def)

lemma str_int_stage: "str_int 184467440737095517 = ''184467440737095517''"
  by (simp add: str_int_def str_nat.simps digit_def)

lemma example_sorted: "sort_values example_lib (take 101 [ev3, ev1, ev2]) = [ev1, ev2, ev3]"
  by (simp add: example_lib_def ev1_def ev2_def ev3_def)

lemma example_hover:
  "map (hover example_lib) [ev1, ev2, ev3]
     = [''File: ev1<br>Stage: 1<br>Magnitude: -1.20'',
        ''File: ev2<br>Stage: 1<br>Magnitude: -0.50'',
        ''File: ev3<br>Stage: 2<br>Magnitude: -2.00'']"
  by (simp add: hover_def example_lib_def ev1_def ev2_def ev3_def str_int_small)

lemma example_markers:
  assumes "size_by s = ''Brune Magnitude''" and "color_by s = ''Stage''"
    and "color_scale s = ''Viridis''"
  shows "Scatter3d_markers example_lib s [ev1, ev2, ev3] = Inr example_trace"
    and "Scatter3d_markers example_lib s [ev1, ev2] = Inr example_trace_window"
    and "Scatter3d_markers example_lib s [] = Inr example_trace_empty"
proof -
  have h: "map (hover example_lib) [ev1, ev2]
     = [''File: ev1<br>Stage: 1<br>Magnitude: -1.20'',
        ''File: ev2<br>Stage: 1<br>Magnitude: -0.50'']"
    using example_hover by simp
  show "Scatter3d_markers example_lib s [ev1, ev2, ev3] = Inr example_trace"
    unfolding Scatter3d_markers_def example_hover assms
    by (simp add: size_encoding_def color_encoding_def column_def go_Scatter3d_def
        example_float64_mul example_plotly_accepts
        series_abs_def series_mul_def series_min_def series_max_def list_min_def
        list_max_def example_trace_def ev1_def ev2_def ev3_def)
  show "Scatter3d_markers example_lib s [ev1, ev2] = Inr example_trace_window"
    unfolding Scatter3d_markers_def h assms
    by (simp add: size_encoding_def color_encoding_def column_def go_Scatter3d_def
        example_float64_mul example_plotly_accepts
        series_abs_def series_mul_def series_min_def series_max_def list_min_def
        list_max_def example_trace_window_def ev1_def ev2_def)
  show "Scatter3d_markers example_lib s [] = Inr example_trace_empty"
    unfolding Scatter3d_markers_def assms
    by (simp add: size_encoding_def color_encoding_def column_def go_Scatter3d_def
        example_float64_mul example_plotly_accepts
        series_abs_def series_mul_def series_min_def series_max_def list_min_def
        list_max_def example_trace_empty_def)
qed

lemma example_bounds:
  "datetime_min [ev1, ev2, ev3] = Ts 1741521601250000000"
  "datetime_max [ev1, ev2, ev3] = Ts 1741521603999000000"
  by (simp_all add: datetime_min_def datetime_max_def list_min_def list_max_def
      ev1_def ev2_def ev3_def)

lemma example_window_all:
  "window_filter example_lib (Some (At (Ts 1741521601250000000)))
      (Some (At (Ts 1741521603999000000))) [ev1, ev2, ev3] = Inr [ev1, ev2, ev3]"
  by (simp add: window_filter_def comparand_def ge_bound_def le_bound_def
      ev1_def ev2_def ev3_def)

lemma example_window:
  "window_filter example_lib (Some (At (Ts 1741521601250000000)))
      (Some (Text ''2025-03-09 12:00:02'')) [ev1, ev2, ev3] = Inr [ev1, ev2]"
  by (simp add: window_filter_def comparand_def ge_bound_def le_bound_def
      example_lib_def ev1_def ev2_def ev3_def)

lemma example_plot:
  "MSPlot_create_plot example_lib (MSPlot_init\<lparr>data := Some [ev3, ev1, ev2]\<rparr>)
     = (MSPlot_init\<lparr>data := Some [ev3, ev1, ev2],
          plot_start_time := Some (At (Ts 1741521601250000000)),
          plot_end_time := Some (At (Ts 1741521603999000000))\<rparr>, Inr example_trace)"
proof -
  let ?s = "MSPlot_init\<lparr>data := Some [ev3, ev1, ev2]\<rparr>"
  have d: "data ?s = Some [ev3, ev1, ev2]" by simp
  have b: "default_bounds [ev1, ev2, ev3] ?s
      = MSPlot_init\<lparr>data := Some [ev3, ev1, ev2],
          plot_start_time := Some (At (Ts 1741521601250000000)),
          plot_end_time := Some (At (Ts 1741521603999000000))\<rparr>"
    by (simp add: default_bounds_def MSPlot_init_def example_bounds)
  have m: "Scatter3d_markers example_lib ?s [ev1, ev2, ev3] = Inr example_trace"
    by (rule example_markers) (simp_all add: MSPlot_init_def)
  show ?thesis
    unfolding create_plot_Some [OF d] example_sorted b
    by (simp add: example_window_all m)
qed

lemma example_plot_window:
  "MSPlot_create_plot example_lib
      (MSPlot_init\<lparr>data := Some [ev3, ev1, ev2],
         plot_end_time := Some (Text ''2025-03-09 12:00:02'')\<rparr>)
     = (MSPlot_init\<lparr>data := Some [ev3, ev1, ev2],
          plot_end_time := Some (Text ''2025-03-09 12:00:02''),
          plot_start_time := Some (At (Ts 1741521601250000000))\<rparr>,
        Inr example_trace_window)"
proof -
  let ?s = "MSPlot_init\<lparr>data := Some [ev3, ev1, ev2],
         plot_end_time := Some (Text ''2025-03-09 12:00:02'')\<rparr>"
  have d: "data ?s = Some [ev3, ev1, ev2]" by simp
  have m: "Scatter3d_markers example_lib ?s [ev1, ev2] = Inr example_trace_window"
    by (rule example_markers) (simp_all add: MSPlot_init_def)
  have b: "default_bounds [ev1, ev2, ev3] ?s
      = MSPlot_init\<lparr>data := Some [ev3, ev1, ev2],
          plot_end_time := Some (Text ''2025-03-09 12:00:02''),
          plot_start_time := Some (At (Ts 1741521601250000000))\<rparr>"
    by (simp add: default_bounds_def MSPlot_init_def example_bounds)
  show ?thesis
    unfolding create_plot_Some [OF d] example_sorted b
    by (simp add: example_window m)
qed

lemma example_markers_stage:
  assumes "size_by s = ''Stage''" and "color_by s = ''Stage''"
    and "color_scale s = ''Viridis''"
  shows "Scatter3d_markers example_lib s [ev1, ev2, ev3]
    = Inr (example_trace\<lparr>marker_size := Int64S [100, 100, 200]\<rparr>)"
  unfolding Scatter3d_markers_def example_hover assms
  by (simp add: size_encoding_def color_encoding_def column_def wrap64_id go_Scatter3d_def
      example_plotly_accepts
      series_abs_def series_mul_def series_min_def series_max_def list_min_def
      list_max_def example_trace_def ev1_def ev2_def ev3_def)

lemma example_plot_stage:
  "MSPlot_create_plot example_lib (set_sizeby ''Stage'' (MSPlot_init\<lparr>data := Some [ev3, ev1, ev2]\<rparr>))
     = (MSPlot_init\<lparr>data := Some [ev3, ev1, ev2], size_by := ''Stage'',
          plot_start_time := Some (At (Ts 1741521601250000000)),
          plot_end_time := Some (At (Ts 1741521603999000000))\<rparr>,
        Inr (example_trace\<lparr>marker_size := Int64S [100, 100, 200]\<rparr>))"
proof -
  let ?s = "set_sizeby ''Stage'' (MSPlot_init\<lparr>data := Some [ev3, ev1, ev2]\<rparr>)"
  have d: "data ?s = Some [ev3, ev1, ev2]" by (simp add: set_sizeby_def)
  have b: "default_bounds [ev1, ev2, ev3] ?s
      = MSPlot_init\<lparr>data := Some [ev3, ev1, ev2], size_by := ''Stage'',
          plot_start_time := Some (At (Ts 1741521601250000000)),
          plot_end_time := Some (At (Ts 1741521603999000000))\<rparr>"
    by (simp add: default_bounds_def MSPlot_init_def example_bounds set_sizeby_def)
  have m: "Scatter3d_markers example_lib ?s [ev1, ev2, ev3]
      = Inr (example_trace\<lparr>marker_size := Int64S [100, 100, 200]\<rparr>)"
    by (rule example_markers_stage) (simp_all add: set_sizeby_def MSPlot_init_def)
  show ?thesis
    unfolding create_plot_Some [OF d] example_sorted b
    by (simp add: example_window_all m)
qed

lemma example_plot_empty:
  "MSPlot_create_plot example_lib
      (MSPlot_init\<lparr>data := Some [ev3, ev1, ev2],
         plot_start_time := Some (Text ''2025-03-09 12:00:03''),
         plot_end_time := Some (Text ''2025-03-09 12:00:02'')\<rparr>)
     = (MSPlot_init\<lparr>data := Some [ev3, ev1, ev2],
         plot_start_time := Some (Text ''2025-03-09 12:00:03''),
         plot_end_time := Some (Text ''2025-03-09 12:00:02'')\<rparr>,
        Inr example_trace_empty)"
proof -
  let ?s = "MSPlot_init\<lparr>data := Some [ev3, ev1, ev2],
         plot_start_time := Some (Text ''2025-03-09 12:00:03''),
         plot_end_time := Some (Text ''2025-03-09 12:00:02'')\<rparr>"
  have d: "data ?s = Some [ev3, ev1, ev2]" by simp
  have w: "window_filter example_lib (Some (Text ''2025-03-09 12:00:03''))
      (Some (Text ''2025-03-09 12:00:02'')) [ev1, ev2, ev3] = Inr []"
    by (simp add: window_filter_def comparand_def ge_bound_def le_bound_def
        example_lib_def ev1_def ev2_def ev3_def)
  have b: "default_bounds [ev1, ev2, ev3] ?s = ?s"
    by (simp add: default_bounds_def)
  have m: "Scatter3d_markers example_lib ?s [] = Inr example_trace_empty"
    by (rule example_markers) (simp_all add: MSPlot_init_def)
  show ?thesis
    unfolding create_plot_Some [OF d] example_sorted b
    by (simp add: w m)
qed

lemma example_plot_wrapped:
  "MSPlot_create_plot example_lib (set_sizeby ''Stage'' (MSPlot_init\<lparr>data := Some [ev_stage]\<rparr>))
     = (MSPlot_init\<lparr>data := Some [ev_stage], size_by := ''Stage'',
          plot_start_time := Some (At (Ts 1741521602000000000)),
          plot_end_time := Some (At (Ts 1741521602000000000))\<rparr>,
        Inr example_trace_stage)"
proof -
  let ?s = "set_sizeby ''Stage'' (MSPlot_init\<lparr>data := Some [ev_stage]\<rparr>)"
  have d: "data ?s = Some [ev_stage]" by (simp add: set_sizeby_def)
  have s: "sort_values example_lib (take 101 [ev_stage]) = [ev_stage]"
    by (simp add: example_lib_def)
  have b: "default_bounds [ev_stage] ?s
      = MSPlot_init\<lparr>data := Some [ev_stage], size_by := ''Stage'',
          plot_start_time := Some (At (Ts 1741521602000000000)),
          plot_end_time := Some (At (Ts 1741521602000000000))\<rparr>"
    by (simp add: default_bounds_def MSPlot_init_def datetime_min_def datetime_max_def
        list_min_def list_max_def ev_stage_def set_sizeby_def)
  have w: "window_filter example_lib (Some (At (Ts 1741521602000000000)))
      (Some (At (Ts 1741521602000000000))) [ev_stage] = Inr [ev_stage]"
    by (simp add: window_filter_def comparand_def ge_bound_def le_bound_def ev_stage_def)
  have h: "map (hover example_lib) [ev_stage]
      = [''File: ev5<br>Stage: 184467440737095517<br>Magnitude: -0.50'']"
    by (simp add: hover_def example_lib_def ev_stage_def str_int_stage)
  have n: "size_by ?s = ''Stage''" "color_by ?s = ''Stage''" "color_scale ?s = ''Viridis''"
    by (simp_all add: set_sizeby_def MSPlot_init_def)
  have m: "Scatter3d_markers example_lib ?s [ev_stage] = Inr example_trace_stage"
    unfolding Scatter3d_markers_def h n
    by (simp add: size_encoding_def color_encoding_def column_def go_Scatter3d_def
        example_plotly_accepts wrap64_def
        series_abs_def series_mul_def series_min_def series_max_def list_min_def
        list_max_def example_trace_stage_def ev_stage_def)
  show ?thesis
    unfolding create_plot_Some [OF d] s b
    by (simp add: w m)
qed

subsection \<open>The theorems on the example\<close>

theorem load_csv_origin_datetime_witness:
  "MSPlot_load_csv example_lib example_catalogs ''catalog.csv'' MSPlot_init
     = (MSPlot_init\<lparr>data := Some [ev3, ev1, ev2]\<rparr>, Inr True)
   \<and> to_datetime example_lib
        (map (\<lambda>r. csv_Origin_Date r @ '' '' @ csv_Origin_Time r) example_rows)
       = Inr [Ts 1741521603000000000, Ts 1741521601000000000, Ts 1741521602000000000]
   \<and> sint (Origin_Millisecond ev1) = 250
   \<and> Origin_DateTime ev1 = Ts (1741521601000000000 + 250 * 1000000)"
proof -
  from load_csv_origin_datetime [OF example_load example_to_datetime_length]
  obtain rows evs ts where
    rows: "example_catalogs ''catalog.csv'' = Some (Inr rows)"
    and evs: "data (MSPlot_init\<lparr>data := Some [ev3, ev1, ev2]\<rparr>) = Some evs"
    and ts: "to_datetime example_lib
        (map (\<lambda>r. csv_Origin_Date r @ '' '' @ csv_Origin_Time r) rows) = Inr ts"
    and row: "\<forall>i<length rows.
          File_Name (evs ! i) = csv_File_Name (rows ! i)
        \<and> Origin_Date_MDY (evs ! i) = csv_Origin_Date (rows ! i)
        \<and> Origin_Time_HMS (evs ! i) = csv_Origin_Time (rows ! i)
        \<and> Origin_Millisecond (evs ! i) = csv_Origin_Millisecond (rows ! i)
        \<and> (ts ! i = NaT \<longrightarrow> Origin_DateTime (evs ! i) = NaT)
        \<and> (sint (Origin_Millisecond (evs ! i)) = - (2 ^ 63) \<longrightarrow>
              Origin_DateTime (evs ! i) = NaT)
        \<and> (\<forall>t0. ts ! i = Ts t0 \<and> sint (Origin_Millisecond (evs ! i)) \<noteq> - (2 ^ 63) \<longrightarrow>
              (t0 + sint (Origin_Millisecond (evs ! i)) * 1000000 = - (2 ^ 63) \<longrightarrow>
                  Origin_DateTime (evs ! i) = NaT)
            \<and> (t0 + sint (Origin_Millisecond (evs ! i)) * 1000000 \<noteq> - (2 ^ 63) \<longrightarrow>
                  (\<exists>t. Origin_DateTime (evs ! i) = Ts t
                     \<and> t = t0 + sint (Origin_Millisecond (evs ! i)) * 1000000
                     \<and> (t - t0) div 1000000 = sint (Origin_Millisecond (evs ! i))
                     \<and> (t - t0) mod 1000000 = 0)))"
    by (elim exE conjE)
  from rows have r: "rows = example_rows" by (simp add: example_catalogs_def)
  from evs have e: "evs = [ev3, ev1, ev2]" by simp
  have t: "to_datetime example_lib
        (map (\<lambda>r. csv_Origin_Date r @ '' '' @ csv_Origin_Time r) example_rows)
       = Inr [Ts 1741521603000000000, Ts 1741521601000000000, Ts 1741521602000000000]"
    by (simp add: example_lib_def example_rows_def example_datetime_def)
  with ts r have ts': "ts = [Ts 1741521603000000000, Ts 1741521601000000000,
      Ts 1741521602000000000]"
    by simp
  have ms: "sint (Origin_Millisecond ev1) = 250" by (simp add: ev1_def)
  have one: "(1::nat) < length rows" by (simp add: r example_rows_def)
  from row [rule_format, OF one]
  have "\<forall>t0. ts ! 1 = Ts t0 \<and> sint (Origin_Millisecond (evs ! 1)) \<noteq> - (2 ^ 63) \<longrightarrow>
      (t0 + sint (Origin_Millisecond (evs ! 1)) * 1000000 \<noteq> - (2 ^ 63) \<longrightarrow>
         (\<exists>t. Origin_DateTime (evs ! 1) = Ts t
            \<and> t = t0 + sint (Origin_Millisecond (evs ! 1)) * 1000000
            \<and> (t - t0) div 1000000 = sint (Origin_Millisecond (evs ! 1))
            \<and> (t - t0) mod 1000000 = 0))"
    by simp
  from this [rule_format, of 1741521601000000000]
  have "Origin_DateTime ev1 = Ts (1741521601000000000 + 250 * 1000000)"
    unfolding e ts' by (simp add: ms)
  with example_load t ms show ?thesis by simp
qed

text \<open>
  The claim as it was stated does not hold of the second catalog: its row is loaded, its
  date and time parse, and its \<open>Origin DateTime\<close> is not a time.
\<close>

theorem load_csv_origin_datetime_counterexample:
  "MSPlot_load_csv example_lib example_catalogs ''least.csv'' MSPlot_init
     = (MSPlot_init\<lparr>data := Some [ev_least]\<rparr>, Inr True)
   \<and> to_datetime example_lib [Origin_Date_MDY ev_least @ '' '' @ Origin_Time_HMS ev_least]
       = Inr [Ts 1741521601000000000]
   \<and> sint (Origin_Millisecond ev_least) = - 9223372036854775808
   \<and> Origin_DateTime ev_least = NaT"
  using example_load_least
  by (simp add: ev_least_def example_lib_def example_datetime_def)

theorem marker_size_scaled_witness:
  "MSPlot_create_plot example_lib (MSPlot_init\<lparr>data := Some [ev3, ev1, ev2]\<rparr>)
     = (MSPlot_init\<lparr>data := Some [ev3, ev1, ev2],
          plot_start_time := Some (At (Ts 1741521601250000000)),
          plot_end_time := Some (At (Ts 1741521603999000000))\<rparr>, Inr example_trace)
   \<and> map Brune_Magnitude [ev1, ev2, ev3]
       = [- (5404319552844595 / 4503599627370496), - 0.5, - 2.0]
   \<and> marker_size example_trace = Float64S [120, 50, 200]
   \<and> MSPlot_create_plot example_lib
        (set_sizeby ''Stage'' (MSPlot_init\<lparr>data := Some [ev3, ev1, ev2]\<rparr>))
     = (MSPlot_init\<lparr>data := Some [ev3, ev1, ev2], size_by := ''Stage'',
          plot_start_time := Some (At (Ts 1741521601250000000)),
          plot_end_time := Some (At (Ts 1741521603999000000))\<rparr>,
        Inr (example_trace\<lparr>marker_size := Int64S [100, 100, 200]\<rparr>))
   \<and> map (\<lambda>r. sint (Stage r)) [ev1, ev2, ev3] = [1, 1, 2]
   \<and> marker_size (example_trace\<lparr>marker_size := Int64S [100, 100, 200]\<rparr>)
       = Int64S (map (\<lambda>r. \<bar>sint (Stage r)\<bar> * 100) [ev1, ev2, ev3])"
proof -
  let ?s = "MSPlot_init\<lparr>data := Some [ev3, ev1, ev2]\<rparr>"
  let ?s' = "MSPlot_init\<lparr>data := Some [ev3, ev1, ev2],
          plot_start_time := Some (At (Ts 1741521601250000000)),
          plot_end_time := Some (At (Ts 1741521603999000000))\<rparr>"
  let ?z = "set_sizeby ''Stage'' (MSPlot_init\<lparr>data := Some [ev3, ev1, ev2]\<rparr>)"
  let ?z' = "MSPlot_init\<lparr>data := Some [ev3, ev1, ev2], size_by := ''Stage'',
          plot_start_time := Some (At (Ts 1741521601250000000)),
          plot_end_time := Some (At (Ts 1741521603999000000))\<rparr>"
  from marker_size_scaled [OF example_plot]
  obtain d df where
    d: "data ?s = Some d"
    and w: "window_filter example_lib (plot_start_time ?s') (plot_end_time ?s')
         (sort_values example_lib (take 101 d)) = Inr df"
    and m: "size_by ?s = ''Brune Magnitude'' \<longrightarrow>
          marker_size example_trace
            = Float64S (map (\<lambda>r. float64_mul example_lib \<bar>Brune_Magnitude r\<bar> 100) df)"
    by (elim exE conjE)
  from d have d': "d = [ev3, ev1, ev2]" by simp
  from w have df: "df = [ev1, ev2, ev3]"
    unfolding d' example_sorted using example_window_all by simp
  from m have sizes: "marker_size example_trace = Float64S [120, 50, 200]"
    unfolding df
    by (simp add: MSPlot_init_def example_float64_mul ev1_def ev2_def ev3_def)
  from marker_size_scaled [OF example_plot_stage]
  obtain e ef where
    e: "data ?z = Some e"
    and v: "window_filter example_lib (plot_start_time ?z') (plot_end_time ?z')
         (sort_values example_lib (take 101 e)) = Inr ef"
    and x: "size_by ?z = ''Stage'' \<and> (\<forall>r \<in> set ef. \<bar>sint (Stage r)\<bar> * 100 < 2 ^ 63) \<longrightarrow>
          marker_size (example_trace\<lparr>marker_size := Int64S [100, 100, 200]\<rparr>)
            = Int64S (map (\<lambda>r. \<bar>sint (Stage r)\<bar> * 100) ef)"
    by (elim exE conjE)
  from e have e': "e = [ev3, ev1, ev2]" by (simp add: set_sizeby_def)
  from v have ef: "ef = [ev1, ev2, ev3]"
    unfolding e' example_sorted using example_window_all by simp
  have small: "\<forall>r \<in> set [ev1, ev2, ev3]. \<bar>sint (Stage r)\<bar> * 100 < 2 ^ 63"
    by (simp add: ev1_def ev2_def ev3_def)
  have "size_by ?z = ''Stage''" by (simp add: set_sizeby_def)
  with x small
  have stages: "marker_size (example_trace\<lparr>marker_size := Int64S [100, 100, 200]\<rparr>)
            = Int64S (map (\<lambda>r. \<bar>sint (Stage r)\<bar> * 100) [ev1, ev2, ev3])"
    unfolding ef by blast
  have fields: "map Brune_Magnitude [ev1, ev2, ev3]
       = [- (5404319552844595 / 4503599627370496), - 0.5, - 2.0]"
    "map (\<lambda>r. sint (Stage r)) [ev1, ev2, ev3] = [1, 1, 2]"
    by (simp_all add: ev1_def ev2_def ev3_def)
  show ?thesis
    apply (intro conjI)
    apply (rule example_plot)
    apply (rule fields(1))
    apply (rule sizes)
    apply (rule example_plot_stage)
    apply (rule fields(2))
    apply (rule stages)
    done
qed

text \<open>
  The claim as it was stated does not hold of an event of stage 184467440737095517 with
  the size attribute \<open>Stage\<close>: the trace is returned, the absolute value times 100 is
  18446744073709551700, and the marker size is 84.
\<close>

theorem marker_size_scaled_counterexample:
  "MSPlot_create_plot example_lib (set_sizeby ''Stage'' (MSPlot_init\<lparr>data := Some [ev_stage]\<rparr>))
     = (MSPlot_init\<lparr>data := Some [ev_stage], size_by := ''Stage'',
          plot_start_time := Some (At (Ts 1741521602000000000)),
          plot_end_time := Some (At (Ts 1741521602000000000))\<rparr>,
        Inr example_trace_stage)
   \<and> \<bar>sint (Stage ev_stage)\<bar> * 100 = 18446744073709551700
   \<and> marker_size example_trace_stage = Int64S [84]"
  using example_plot_wrapped
  by (simp add: example_trace_stage_def ev_stage_def)

theorem marker_color_range_witness:
  "MSPlot_create_plot example_lib
      (MSPlot_init\<lparr>data := Some [ev3, ev1, ev2],
         plot_end_time := Some (Text ''2025-03-09 12:00:02'')\<rparr>)
     = (MSPlot_init\<lparr>data := Some [ev3, ev1, ev2],
          plot_end_time := Some (Text ''2025-03-09 12:00:02''),
          plot_start_time := Some (At (Ts 1741521601250000000))\<rparr>,
        Inr example_trace_window)
   \<and> marker_color example_trace_window = Int64S [1, 1]
   \<and> marker_cmin example_trace_window = Some (Int64 1)
   \<and> marker_cmax example_trace_window = Some (Int64 1)
   \<and> marker_color example_trace = Int64S [1, 1, 2]
   \<and> marker_cmin example_trace = Some (Int64 1)
   \<and> marker_cmax example_trace = Some (Int64 2)
   \<and> MSPlot_create_plot example_lib
      (MSPlot_init\<lparr>data := Some [ev3, ev1, ev2],
         plot_start_time := Some (Text ''2025-03-09 12:00:03''),
         plot_end_time := Some (Text ''2025-03-09 12:00:02'')\<rparr>)
     = (MSPlot_init\<lparr>data := Some [ev3, ev1, ev2],
         plot_start_time := Some (Text ''2025-03-09 12:00:03''),
         plot_end_time := Some (Text ''2025-03-09 12:00:02'')\<rparr>,
        Inr example_trace_empty)
   \<and> marker_cmin example_trace_empty = None
   \<and> marker_cmax example_trace_empty = None
   \<and> (\<exists>t. snd (MSPlot_create_plot example_lib
               (MSPlot_init\<lparr>data := Some [ev3, ev1, ev2],
                  plot_end_time := Some (Text ''2025-03-09 12:00:02'')\<rparr>)) = Inr t
          \<and> marker_cmin t = Some (Int64 1) \<and> marker_cmax t = Some (Int64 1)
          \<and> scalars (marker_color t) = [Int64 1, Int64 1])"
proof -
  let ?s = "MSPlot_init\<lparr>data := Some [ev3, ev1, ev2],
         plot_end_time := Some (Text ''2025-03-09 12:00:02'')\<rparr>"
  let ?s1 = "default_bounds (sort_values example_lib (take 101 [ev3, ev1, ev2])) ?s"
  have b: "?s1 = MSPlot_init\<lparr>data := Some [ev3, ev1, ev2],
          plot_end_time := Some (Text ''2025-03-09 12:00:02''),
          plot_start_time := Some (At (Ts 1741521601250000000))\<rparr>"
    unfolding example_sorted
    by (simp add: default_bounds_def MSPlot_init_def example_bounds)
  have w: "window_filter example_lib (plot_start_time ?s1) (plot_end_time ?s1)
      (sort_values example_lib (take 101 [ev3, ev1, ev2])) = Inr [ev1, ev2]"
    unfolding b unfolding example_sorted using example_window by simp
  have sz: "size_encoding example_lib (size_by ?s) [ev1, ev2] = Inr (Float64S [120, 50])"
    by (simp add: MSPlot_init_def size_encoding_names example_float64_mul ev1_def ev2_def)
  have col: "column (color_by ?s) [ev1, ev2] = Inr (Int64S [1, 1])"
    by (simp add: MSPlot_init_def column_names ev1_def ev2_def)
  have hyp: "data ?s = Some [ev3, ev1, ev2]
      \<and> window_filter example_lib (plot_start_time ?s1) (plot_end_time ?s1)
          (sort_values example_lib (take 101 [ev3, ev1, ev2])) = Inr [ev1, ev2]
      \<and> size_encoding example_lib (size_by ?s) [ev1, ev2] = Inr (Float64S [120, 50])
      \<and> nonnegative_numbers (Float64S [120, 50])
      \<and> column (color_by ?s) [ev1, ev2] = Inr (Int64S [1, 1])
      \<and> numbers (Int64S [1, 1])
      \<and> color_scale ?s = ''Viridis''
      \<and> [ev1, ev2] \<noteq> [] \<and> (\<forall>c \<in> set (scalars (Int64S [1, 1])). c = Int64 1)
      \<and> (\<forall>a. numeric_encoding a \<longrightarrow> plotly_accepts example_lib a)"
    apply (intro conjI)
    apply simp
    apply (rule w)
    apply (rule sz)
    apply simp
    apply (rule col)
    apply simp
    apply (simp add: MSPlot_init_def)
    apply simp
    apply simp
    apply (simp add: example_accepts_numeric)
    done
  from marker_color_range [of example_lib ?s, THEN conjunct2, THEN conjunct2, rule_format,
      OF hyp]
  obtain t where t: "MSPlot_create_plot example_lib ?s = (?s1, Inr t)"
    "marker_cmin t = Some (Int64 1)" "marker_cmax t = Some (Int64 1)"
    "scalars (marker_color t) = replicate (length [ev1, ev2]) (Int64 1)"
    by (elim exE conjE)
  from t(1) have "snd (MSPlot_create_plot example_lib ?s) = Inr t" by simp
  with t(2,3,4) have produced: "\<exists>t. snd (MSPlot_create_plot example_lib ?s) = Inr t
          \<and> marker_cmin t = Some (Int64 1) \<and> marker_cmax t = Some (Int64 1)
          \<and> scalars (marker_color t) = [Int64 1, Int64 1]"
    by (intro exI [of _ t]) (simp add: numeral_2_eq_2)
  from example_plot_window example_plot_empty produced show ?thesis
    by (simp add: example_trace_window_def example_trace_def example_trace_empty_def)
qed

theorem window_filter_inclusive_witness:
  "window_filter example_lib (Some (At (Ts 1741521601250000000)))
      (Some (Text ''2025-03-09 12:00:02'')) [ev1, ev2, ev3] = Inr [ev1, ev2]
   \<and> window_filter example_lib (Some (Text ''2025-03-09 12:00:03''))
      (Some (Text ''2025-03-09 12:00:02'')) [ev1, ev2, ev3] = Inr []
   \<and> MSPlot_create_plot example_lib
      (MSPlot_init\<lparr>data := Some [ev3, ev1, ev2],
         plot_start_time := Some (At (Ts 1741521601250000000)),
         plot_end_time := Some (Text ''2025-03-09 12:00:02'')\<rparr>)
     = (MSPlot_init\<lparr>data := Some [ev3, ev1, ev2],
         plot_start_time := Some (At (Ts 1741521601250000000)),
         plot_end_time := Some (Text ''2025-03-09 12:00:02'')\<rparr>,
        Inr example_trace_window)"
proof -
  let ?s = "MSPlot_init\<lparr>data := Some [ev3, ev1, ev2],
         plot_start_time := Some (At (Ts 1741521601250000000)),
         plot_end_time := Some (Text ''2025-03-09 12:00:02'')\<rparr>"
  have a: "comparand example_lib (Some (At (Ts 1741521601250000000)))
      = Inr (Ts 1741521601250000000)"
    by (simp add: comparand_def)
  have b: "comparand example_lib (Some (Text ''2025-03-09 12:00:02''))
      = Inr (Ts 1741521602000000000)"
    by (simp add: comparand_def example_lib_def)
  have c: "comparand example_lib (Some (Text ''2025-03-09 12:00:03''))
      = Inr (Ts 1741521603000000000)"
    by (simp add: comparand_def example_lib_def)
  have m: "Scatter3d_markers example_lib ?s [ev1, ev2] = Inr example_trace_window"
    by (rule example_markers) (simp_all add: MSPlot_init_def)
  have f: "filter (in_window 1741521601250000000 1741521602000000000) [ev1, ev2, ev3]
      = [ev1, ev2]"
    by (simp add: in_window_def ev1_def ev2_def ev3_def)
  have f': "filter (in_window 1741521603000000000 1741521602000000000) [ev1, ev2, ev3]
      = []"
    by (simp add: in_window_def ev1_def ev2_def ev3_def)
  from window_filter_inclusive [OF a b, of "[ev1, ev2, ev3]" ?s "[ev3, ev1, ev2]"]
    window_filter_inclusive [OF c b, of "[ev1, ev2, ev3]" ?s "[ev3, ev1, ev2]"]
  show ?thesis
    unfolding example_sorted f f' by (simp add: m)
qed

theorem create_plot_stores_default_bounds_witness:
  "plot_start_time (fst (MSPlot_create_plot example_lib
       (MSPlot_init\<lparr>data := Some [ev3, ev1, ev2]\<rparr>)))
     = Some (At (Ts 1741521601250000000))
   \<and> plot_end_time (fst (MSPlot_create_plot example_lib
       (MSPlot_init\<lparr>data := Some [ev3, ev1, ev2]\<rparr>)))
     = Some (At (Ts 1741521603999000000))
   \<and> plot_start_time (fst (MSPlot_create_plot example_lib
       ((fst (MSPlot_create_plot example_lib (MSPlot_init\<lparr>data := Some [ev3, ev1, ev2]\<rparr>)))
          \<lparr>data := Some [ev2]\<rparr>)))
     = Some (At (Ts 1741521601250000000))
   \<and> plot_end_time (fst (MSPlot_create_plot example_lib
       ((fst (MSPlot_create_plot example_lib (MSPlot_init\<lparr>data := Some [ev3, ev1, ev2]\<rparr>)))
          \<lparr>data := Some [ev2]\<rparr>)))
     = Some (At (Ts 1741521603999000000))
   \<and> plot_start_time (fst (MSPlot_create_plot example_lib
       (MSPlot_init\<lparr>data := Some [ev3, ev1, ev2],
          plot_start_time := Some (Text ''2025-03-09 12:00:03''),
          plot_end_time := Some (Text ''2025-03-09 12:00:02'')\<rparr>)))
     = Some (Text ''2025-03-09 12:00:03'')
   \<and> plot_end_time (fst (MSPlot_create_plot example_lib
       (MSPlot_init\<lparr>data := Some [ev3, ev1, ev2],
          plot_start_time := Some (Text ''2025-03-09 12:00:03''),
          plot_end_time := Some (Text ''2025-03-09 12:00:02'')\<rparr>)))
     = Some (Text ''2025-03-09 12:00:02'')"
proof -
  have d: "data (MSPlot_init\<lparr>data := Some [ev3, ev1, ev2]\<rparr>) = Some [ev3, ev1, ev2]"
    by simp
  have d': "data (MSPlot_init\<lparr>data := Some [ev3, ev1, ev2],
          plot_start_time := Some (Text ''2025-03-09 12:00:03''),
          plot_end_time := Some (Text ''2025-03-09 12:00:02'')\<rparr>) = Some [ev3, ev1, ev2]"
    by simp
  have s: "set (sort_values example_lib xs) = set xs" for xs
    by (simp add: example_lib_def)
  from create_plot_stores_default_bounds [OF d s, of example_lib "[ev2]"]
    create_plot_stores_default_bounds [OF d' s, of example_lib "[ev2]"] example_plot
  show ?thesis by simp
qed

theorem create_plot_first_101_rows_witness:
  "101 \<le> length (replicate 101 ev1)
   \<and> take 101 (replicate 101 ev1) = take 101 (replicate 101 ev1 @ [ev3])
   \<and> snd (MSPlot_create_plot example_lib
         (MSPlot_init\<lparr>data := Some (replicate 101 ev1 @ [ev2, ev3])\<rparr>))
     = snd (MSPlot_create_plot example_lib
         (MSPlot_init\<lparr>data := Some (replicate 101 ev1)\<rparr>))
   \<and> snd (MSPlot_create_plot example_lib
         (MSPlot_init\<lparr>data := Some (replicate 101 ev1)\<rparr>))
     = snd (MSPlot_create_plot example_lib
         (MSPlot_init\<lparr>data := Some (replicate 101 ev1 @ [ev3])\<rparr>))"
  using create_plot_first_101_rows [where lib = example_lib and self = MSPlot_init
      and d = "replicate 101 ev1" and d' = "replicate 101 ev1 @ [ev3]"
      and more_rows = "[ev2, ev3]"]
  by simp


end
